theory Spec2Isabelle
  imports Complex_Main
begin

section \<open>Configuration (config.py)\<close>

text \<open>
  The module-level constants of \<^verbatim>\<open>config.py\<close> that the simulation core reads.
  Python integers are \<open>int\<close>, Python floats are idealised as \<open>real\<close>.
  \<^verbatim>\<open>MUTATION_RATE\<close> and \<^verbatim>\<open>CROSSOVER_RATE\<close> are reassigned at run time by the
  control panel, so the operations that read them take them as arguments.
\<close>

definition WORLD_WIDTH :: int where "WORLD_WIDTH = 1200"
definition WORLD_HEIGHT :: int where "WORLD_HEIGHT = 800"
definition WRAP_WORLD :: bool where "WRAP_WORLD = True"
definition NEST_RADIUS :: int where "NEST_RADIUS = 50"
definition INITIAL_ENERGY :: real where "INITIAL_ENERGY = 500"
definition MAX_COLONY_SIZE :: nat where "MAX_COLONY_SIZE = 500"
definition ANT_SIZE :: int where "ANT_SIZE = 8"
definition ANT_VISION_RANGE :: int where "ANT_VISION_RANGE = 50"
definition ANT_SPEED :: int where "ANT_SPEED = 3"
definition ANT_ENERGY_CONSUMPTION :: real where "ANT_ENERGY_CONSUMPTION = 5 / 100"
definition ANT_ENERGY_FROM_FOOD :: int where "ANT_ENERGY_FROM_FOOD = 100"
definition ANT_LIFESPAN :: int where "ANT_LIFESPAN = 3000"
definition FOOD_SIZE :: int where "FOOD_SIZE = 5"
definition FOOD_ENERGY :: int where "FOOD_ENERGY = 50"
definition PHEROMONE_DEPOSIT :: int where "PHEROMONE_DEPOSIT = 10"
definition PHEROMONE_EVAPORATION_RATE :: real where "PHEROMONE_EVAPORATION_RATE = 995 / 1000"
definition PHEROMONE_DIFFUSION :: real where "PHEROMONE_DIFFUSION = 5 / 100"
definition NEURAL_NETWORK_LAYERS :: "nat list" where "NEURAL_NETWORK_LAYERS = [16, 32, 16]"

section \<open>Errors\<close>

text \<open>The Python exceptions that the modelled code can raise, as values.\<close>

datatype py_error =
    ZeroDivisionError
  | ValueError
  | IndexError
  | KeyError
  | OSError

section \<open>Vector2D (utils/vector.py)\<close>

datatype Vector2D = Vector2D (vx: real) (vy: real)

section \<open>PheromoneSystem (core/pheromone.py)\<close>

text \<open>
  A two-dimensional numpy array of shape \<open>(grid_width, grid_height)\<close> is a list of
  \<open>grid_width\<close> rows of \<open>grid_height\<close> cells; \<open>g ! i ! j\<close> is \<^verbatim>\<open>g[i, j]\<close>.
  The dictionary \<^verbatim>\<open>grids\<close> is an association list in insertion order
  (\<^verbatim>\<open>'food'\<close>, then \<^verbatim>\<open>'home'\<close>). The display colours are left out.
\<close>

type_synonym grid = "real list list"

record PheromoneSystem =
  ps_width :: int
  ps_height :: int
  resolution :: int
  grid_width :: int
  grid_height :: int
  grids :: "(string \<times> grid) list"

definition np_zeros2 :: "int \<Rightarrow> int \<Rightarrow> grid" where
  "np_zeros2 m n = replicate (nat m) (replicate (nat n) 0)"

text \<open>
  \<^verbatim>\<open>PheromoneSystem.__init__\<close>. Integer \<^verbatim>\<open>//\<close> is floor division and raises on a
  zero divisor; \<^verbatim>\<open>np.zeros\<close> raises \<^verbatim>\<open>ValueError\<close> on a negative dimension.
\<close>

definition PheromoneSystem_init :: "int \<Rightarrow> int \<Rightarrow> int \<Rightarrow> py_error + PheromoneSystem" where
  "PheromoneSystem_init w h r =
     (if r = 0 then Inl ZeroDivisionError
      else
        let gw = w div r + 1;
            gh = h div r + 1
        in if gw < 0 \<or> gh < 0 then Inl ValueError
           else Inr \<lparr> ps_width = w, ps_height = h, resolution = r,
                      grid_width = gw, grid_height = gh,
                      grids = [(''food'', np_zeros2 gw gh), (''home'', np_zeros2 gw gh)] \<rparr>)"

text \<open>The shape of a stored array, read off the nested list.\<close>

definition has_shape :: "grid \<Rightarrow> int \<Rightarrow> int \<Rightarrow> bool" where
  "has_shape g m n \<longleftrightarrow> int (length g) = m \<and> list_all (\<lambda>row. int (length row) = n) g"

text \<open>
  World coordinate to grid coordinate, as in
  \<^verbatim>\<open>min(int(position.x // self.resolution), self.grid_width - 1)\<close>: float floor division,
  then the upper clamp (there is no lower clamp in the source).
\<close>

definition grid_coord :: "real \<Rightarrow> int \<Rightarrow> int \<Rightarrow> int" where
  "grid_coord c r gdim = min \<lfloor>c / real_of_int r\<rfloor> (gdim - 1)"

text \<open>
  A numpy index into an axis of length \<open>n\<close>: a negative index counts from the end, anything
  outside \<open>-n \<le> i < n\<close> raises \<^verbatim>\<open>IndexError\<close> (here \<open>None\<close>).
\<close>

definition np_index :: "nat \<Rightarrow> int \<Rightarrow> nat option" where
  "np_index n i =
     (if 0 \<le> i \<and> i < int n then Some (nat i)
      else if - int n \<le> i \<and> i < 0 then Some (nat (int n + i))
      else None)"

definition set_grid :: "string \<Rightarrow> grid \<Rightarrow> (string \<times> grid) list \<Rightarrow> (string \<times> grid) list" where
  "set_grid t g gs = map (\<lambda>(k, v). if k = t then (k, g) else (k, v)) gs"

definition add_pheromone ::
  "PheromoneSystem \<Rightarrow> Vector2D \<Rightarrow> string \<Rightarrow> real \<Rightarrow> py_error + PheromoneSystem" where
  "add_pheromone p pos pheromone_type amount =
     (case map_of (grids p) pheromone_type of
        None \<Rightarrow> Inr p
      | Some g \<Rightarrow>
          if resolution p = 0 then Inl ZeroDivisionError
          else
            let grid_x = grid_coord (vx pos) (resolution p) (grid_width p);
                grid_y = grid_coord (vy pos) (resolution p) (grid_height p)
            in case np_index (length g) grid_x of
                 None \<Rightarrow> Inl IndexError
               | Some i \<Rightarrow>
                   (case np_index (length (g ! i)) grid_y of
                      None \<Rightarrow> Inl IndexError
                    | Some j \<Rightarrow>
                        Inr (p\<lparr>grids :=
                               set_grid pheromone_type
                                 (g[i := (g ! i)[j := g ! i ! j + amount]]) (grids p)\<rparr>)))"

text \<open>
  \<^verbatim>\<open>PheromoneSystem.update\<close>, one channel. Evaporation multiplies every cell in place.
  Diffusion copies the evaporated array and overwrites the interior cells of the copy,
  always reading the evaporated array; the two \<^verbatim>\<open>for\<close> loops are the two folds.
  The loops read rows \<open>0 .. grid_width - 1\<close> and columns \<open>0 .. grid_height - 1\<close> (never a
  negative index), so they raise \<^verbatim>\<open>IndexError\<close> exactly when they run at all and the
  array is smaller than that.
\<close>

definition evaporate :: "real \<Rightarrow> grid \<Rightarrow> grid" where
  "evaporate e g = map (map (\<lambda>v. v * e)) g"

definition np_mean :: "real list \<Rightarrow> real" where
  "np_mean xs = sum_list xs / real (length xs)"

definition diffuse_cell :: "real \<Rightarrow> grid \<Rightarrow> nat \<Rightarrow> nat \<Rightarrow> real" where
  "diffuse_cell d g i j =
     (1 - d) * g ! i ! j
     + d * np_mean [g ! (i - 1) ! j, g ! (i + 1) ! j, g ! i ! (j - 1), g ! i ! (j + 1)]"

definition diffuse :: "real \<Rightarrow> int \<Rightarrow> int \<Rightarrow> grid \<Rightarrow> grid" where
  "diffuse d gw gh g =
     fold (\<lambda>i diffused.
             fold (\<lambda>j diffused. diffused[i := (diffused ! i)[j := diffuse_cell d g i j]])
                  [1 ..< nat (gh - 1)] diffused)
          [1 ..< nat (gw - 1)] g"

definition covers :: "grid \<Rightarrow> int \<Rightarrow> int \<Rightarrow> bool" where
  "covers g gw gh \<longleftrightarrow> gw \<le> int (length g) \<and> list_all (\<lambda>row. gh \<le> int (length row)) g"

definition update_grid :: "real \<Rightarrow> real \<Rightarrow> int \<Rightarrow> int \<Rightarrow> grid \<Rightarrow> py_error + grid" where
  "update_grid e d gw gh g =
     (let g1 = evaporate e g
      in if d > 0 then
           (if 3 \<le> gw \<and> 3 \<le> gh \<and> \<not> covers g1 gw gh then Inl IndexError
            else Inr (diffuse d gw gh g1))
         else Inr g1)"

text \<open>The loop over the channels; an exception in one channel ends the call.\<close>

fun update_grids ::
  "real \<Rightarrow> real \<Rightarrow> int \<Rightarrow> int \<Rightarrow> (string \<times> grid) list \<Rightarrow> py_error + (string \<times> grid) list" where
  "update_grids e d gw gh [] = Inr []"
| "update_grids e d gw gh ((k, g) # gs) =
     (case update_grid e d gw gh g of
        Inl err \<Rightarrow> Inl err
      | Inr g' \<Rightarrow>
          (case update_grids e d gw gh gs of
             Inl err \<Rightarrow> Inl err
           | Inr gs' \<Rightarrow> Inr ((k, g') # gs')))"

definition PheromoneSystem_update :: "PheromoneSystem \<Rightarrow> py_error + PheromoneSystem" where
  "PheromoneSystem_update p =
     (case update_grids PHEROMONE_EVAPORATION_RATE PHEROMONE_DIFFUSION
             (grid_width p) (grid_height p) (grids p) of
        Inl err \<Rightarrow> Inl err
      | Inr gs \<Rightarrow> Inr (p\<lparr>grids := gs\<rparr>))"

text \<open>Reading one cell of one channel (\<open>None\<close> for an unknown channel or a cell off the array).\<close>

definition cell :: "PheromoneSystem \<Rightarrow> string \<Rightarrow> nat \<Rightarrow> nat \<Rightarrow> real option" where
  "cell p t i j =
     (case map_of (grids p) t of
        None \<Rightarrow> None
      | Some g \<Rightarrow> if i < length g \<and> j < length (g ! i) then Some (g ! i ! j) else None)"

definition nonneg_cells :: "PheromoneSystem \<Rightarrow> bool" where
  "nonneg_cells p \<longleftrightarrow> list_all (\<lambda>(k, g). list_all (list_all (\<lambda>v. 0 \<le> v)) g) (grids p)"

definition well_shaped :: "PheromoneSystem \<Rightarrow> bool" where
  "well_shaped p \<longleftrightarrow>
     distinct (map fst (grids p))
     \<and> list_all (\<lambda>(k, g). has_shape g (grid_width p) (grid_height p)) (grids p)"

text \<open>
  The cells that diffusion rewrites (the ranges of the two loops), the previous values of
  a cell and of its four neighbours, and the value of a cell after one \<open>update\<close>.
\<close>

definition interior :: "PheromoneSystem \<Rightarrow> nat \<Rightarrow> nat \<Rightarrow> bool" where
  "interior p i j \<longleftrightarrow> 1 \<le> i \<and> int i < grid_width p - 1 \<and> 1 \<le> j \<and> int j < grid_height p - 1"

definition neighbourhood :: "PheromoneSystem \<Rightarrow> string \<Rightarrow> nat \<Rightarrow> nat \<Rightarrow> real list" where
  "neighbourhood p t i j =
     List.map_filter (\<lambda>(a, b). cell p t a b)
       [(i, j), (i - 1, j), (i + 1, j), (i, j - 1), (i, j + 1)]"

definition cell_after_update :: "PheromoneSystem \<Rightarrow> string \<Rightarrow> nat \<Rightarrow> nat \<Rightarrow> real option" where
  "cell_after_update p t i j =
     (case PheromoneSystem_update p of Inl err \<Rightarrow> None | Inr p' \<Rightarrow> cell p' t i j)"

text \<open>The grid dimension as the specification words it: the ceiling of size over resolution.\<close>

definition spec_grid_dim :: "int \<Rightarrow> int \<Rightarrow> int" where
  "spec_grid_dim sz r = \<lceil>real_of_int sz / real_of_int r\<rceil>"

section \<open>Nest (core/nest.py)\<close>

text \<open>
  A chamber is the dictionary \<^verbatim>\<open>{'size': s, 'capacity': c}\<close>; the chambers dictionary is
  an association list in insertion order. The display colour is left out.
\<close>

record chamber =
  chamber_size :: int
  capacity :: int

record Nest =
  nest_position :: Vector2D
  radius :: int
  food_stored :: int
  structure_level :: int
  chambers :: "(string \<times> chamber) list"

definition Nest_init :: "real \<Rightarrow> real \<Rightarrow> int \<Rightarrow> Nest" where
  "Nest_init px py r =
     \<lparr> nest_position = Vector2D px py, radius = r, food_stored = 0, structure_level = 1,
       chambers = [(''food'', \<lparr>chamber_size = 1, capacity = 100\<rparr>),
                   (''nursery'', \<lparr>chamber_size = 1, capacity = 20\<rparr>),
                   (''queen'', \<lparr>chamber_size = 1, capacity = 1\<rparr>)] \<rparr>"

text \<open>
  The body of the loop over \<^verbatim>\<open>self.chambers.values()\<close>: the size grows by one, then the
  capacity is multiplied by the new size.
\<close>

definition upgrade_chamber :: "chamber \<Rightarrow> chamber" where
  "upgrade_chamber c =
     (let c1 = c\<lparr>chamber_size := chamber_size c + 1\<rparr>
      in c1\<lparr>capacity := chamber_size c1 * capacity c1\<rparr>)"

text \<open>\<^verbatim>\<open>Nest._check_upgrades\<close>: one \<^verbatim>\<open>if\<close>, no loop.\<close>

definition check_upgrades :: "Nest \<Rightarrow> Nest" where
  "check_upgrades n =
     (if food_stored n \<ge> structure_level n * 100 then
        n\<lparr> food_stored := food_stored n - structure_level n * 100,
           structure_level := structure_level n + 1,
           radius := radius n + 5,
           chambers := map (\<lambda>(k, c). (k, upgrade_chamber c)) (chambers n) \<rparr>
      else n)"

definition Nest_add_food :: "Nest \<Rightarrow> int \<Rightarrow> Nest" where
  "Nest_add_food n amount = check_upgrades (n\<lparr>food_stored := food_stored n + amount\<rparr>)"

text \<open>
  The result of \<open>update_grid\<close> when it does not raise, and an example state: the field of
  a 20 by 20 world at resolution 10 after one deposit of 10 at position (5, 15).
\<close>

definition updated_grid :: "real \<Rightarrow> real \<Rightarrow> int \<Rightarrow> int \<Rightarrow> grid \<Rightarrow> grid" where
  "updated_grid e d gw gh g = (if d > 0 then diffuse d gw gh (evaporate e g) else evaporate e g)"

definition single_deposit_field :: PheromoneSystem where
  "single_deposit_field =
     \<lparr> ps_width = 20, ps_height = 20, resolution = 10, grid_width = 3, grid_height = 3,
       grids = [(''food'', [[0, 10, 0], [0, 0, 0], [0, 0, 0]]),
                (''home'', [[0, 0, 0], [0, 0, 0], [0, 0, 0]])] \<rparr>"

section \<open>NeuralNetwork (ml/neural_network.py)\<close>

text \<open>
  The numpy arrays that a network holds. A one-dimensional array of shape \<open>(n,)\<close> is
  \<open>Arr1 xs\<close> with \<open>n = length xs\<close>. A two-dimensional array of shape \<open>(r, c)\<close> is
  \<open>Arr2 c rows\<close> with \<open>r = length rows\<close> and every row of length \<open>c\<close>; the column count
  is stored because an array can have no rows. \<open>elem a r k\<close> is \<^verbatim>\<open>a[r, k]\<close>, and \<^verbatim>\<open>a[k]\<close>
  for a one-dimensional \<open>a\<close>. In broadcasting, a one-dimensional array of length \<open>n\<close>
  counts as one row of \<open>n\<close> columns.
\<close>

type_synonym vector = "real list"
type_synonym matrix = "real list list"

datatype ndarray = Arr1 vector | Arr2 nat matrix

fun wf_array :: "ndarray \<Rightarrow> bool" where
  "wf_array (Arr1 xs) = True"
| "wf_array (Arr2 c rs) = list_all (\<lambda>row. length row = c) rs"

fun shape :: "ndarray \<Rightarrow> nat list" where
  "shape (Arr1 xs) = [length xs]"
| "shape (Arr2 c rs) = [length rs, c]"

fun is_1d :: "ndarray \<Rightarrow> bool" where
  "is_1d (Arr1 xs) = True"
| "is_1d (Arr2 c rs) = False"

fun nrows :: "ndarray \<Rightarrow> nat" where
  "nrows (Arr1 xs) = 1"
| "nrows (Arr2 c rs) = length rs"

fun ncols :: "ndarray \<Rightarrow> nat" where
  "ncols (Arr1 xs) = length xs"
| "ncols (Arr2 c rs) = c"

fun elem :: "ndarray \<Rightarrow> nat \<Rightarrow> nat \<Rightarrow> real" where
  "elem (Arr1 xs) r k = xs ! k"
| "elem (Arr2 c rs) r k = rs ! r ! k"

record NeuralNetwork =
  input_size :: nat
  hidden_sizes :: "nat list"
  output_size :: nat
  weights :: "ndarray list"
  biases :: "vector list"
  activations :: "vector list"

text \<open>
  \<^verbatim>\<open>NeuralNetwork.__init__\<close>, for sizes that are natural numbers. The values that
  \<^verbatim>\<open>np.random.normal\<close> draws are an argument: \<open>draw i r c\<close> is the sample for row \<open>r\<close>,
  column \<open>c\<close> of layer \<open>i\<close>. The scale \<^verbatim>\<open>sqrt(2.0 / (layer_sizes[i] + layer_sizes[i+1]))\<close>
  only shapes the distribution, but computing it raises \<^verbatim>\<open>ZeroDivisionError\<close> when both
  sizes are 0.
\<close>

definition random_matrix :: "(nat \<Rightarrow> nat \<Rightarrow> real) \<Rightarrow> nat \<Rightarrow> nat \<Rightarrow> matrix" where
  "random_matrix sample r c = map (\<lambda>i. map (\<lambda>j. sample i j) [0 ..< c]) [0 ..< r]"

fun init_layers ::
  "(nat \<Rightarrow> nat \<Rightarrow> nat \<Rightarrow> real) \<Rightarrow> nat list \<Rightarrow> nat \<Rightarrow> py_error + (ndarray list \<times> vector list)" where
  "init_layers draw (a # b # ls) i =
     (if a + b = 0 then Inl ZeroDivisionError
      else case init_layers draw (b # ls) (i + 1) of
             Inl err \<Rightarrow> Inl err
           | Inr (ws, bs) \<Rightarrow> Inr (Arr2 b (random_matrix (draw i) a b) # ws, replicate b 0 # bs))"
| "init_layers draw ls i = Inr ([], [])"

definition NeuralNetwork_init ::
  "nat \<Rightarrow> nat list \<Rightarrow> nat \<Rightarrow> (nat \<Rightarrow> nat \<Rightarrow> nat \<Rightarrow> real) \<Rightarrow> py_error + NeuralNetwork" where
  "NeuralNetwork_init isz hsz osz draw =
     (case init_layers draw ([isz] @ hsz @ [osz]) 0 of
        Inl err \<Rightarrow> Inl err
      | Inr (ws, bs) \<Rightarrow>
          Inr \<lparr> input_size = isz, hidden_sizes = hsz, output_size = osz,
                weights = ws, biases = bs, activations = [] \<rparr>)"

text \<open>
  \<^verbatim>\<open>np.dot(x, W)\<close> for a one-dimensional \<open>x\<close>: the length of \<open>x\<close> must be the number of rows
  of a two-dimensional \<open>W\<close> (the result has one entry per column), or the length of a
  one-dimensional \<open>W\<close> (the result is a scalar). Adding the one-dimensional bias
  broadcasts a scalar or a length-one operand; other length differences raise
  \<^verbatim>\<open>ValueError\<close>.
\<close>

datatype np_value = Scalar real | Vec vector

fun np_dot :: "vector \<Rightarrow> ndarray \<Rightarrow> py_error + np_value" where
  "np_dot x (Arr2 c rs) =
     (if length x \<noteq> length rs then Inl ValueError
      else Inr (Vec (map (\<lambda>j. sum_list (map2 (\<lambda>xi row. xi * row ! j) x rs)) [0 ..< c])))"
| "np_dot x (Arr1 ws) =
     (if length x \<noteq> length ws then Inl ValueError
      else Inr (Scalar (sum_list (map2 (\<lambda>xi wi. xi * wi) x ws))))"

fun np_add :: "np_value \<Rightarrow> vector \<Rightarrow> py_error + vector" where
  "np_add (Scalar s) b = Inr (map (\<lambda>v. s + v) b)"
| "np_add (Vec z) b =
     (if length z = length b then Inr (map2 (\<lambda>u v. u + v) z b)
      else if length z = 1 then Inr (map (\<lambda>v. z ! 0 + v) b)
      else if length b = 1 then Inr (map (\<lambda>u. u + b ! 0) z)
      else Inl ValueError)"

text \<open>
  \<^verbatim>\<open>NeuralNetwork.forward\<close> on a one-dimensional input: the loop over
  \<^verbatim>\<open>range(len(self.weights))\<close>, with ReLU on every layer but the last. The result is the
  output and the list of cached activations.
\<close>

fun forward_loop ::
  "ndarray list \<Rightarrow> vector list \<Rightarrow> nat list \<Rightarrow> vector \<Rightarrow> vector list
     \<Rightarrow> py_error + (vector \<times> vector list)" where
  "forward_loop ws bs [] x acts = Inr (x, acts)"
| "forward_loop ws bs (i # is) x acts =
     (case np_dot x (ws ! i) of
        Inl err \<Rightarrow> Inl err
      | Inr d \<Rightarrow>
          if length bs \<le> i then Inl IndexError
          else case np_add d (bs ! i) of
                 Inl err \<Rightarrow> Inl err
               | Inr z \<Rightarrow>
                   let x' = (if int i < int (length ws) - 1 then map (max 0) z else z)
                   in forward_loop ws bs is x' (acts @ [x']))"

definition forward :: "NeuralNetwork \<Rightarrow> vector \<Rightarrow> py_error + (vector \<times> NeuralNetwork)" where
  "forward n inputs =
     (case forward_loop (weights n) (biases n) [0 ..< length (weights n)] inputs [inputs] of
        Inl err \<Rightarrow> Inl err
      | Inr (out, acts) \<Rightarrow> Inr (out, n\<lparr>activations := acts\<rparr>))"

definition forward_output :: "NeuralNetwork \<Rightarrow> vector \<Rightarrow> py_error + vector" where
  "forward_output n inputs = map_sum id fst (forward n inputs)"

text \<open>
  \<^verbatim>\<open>get_weights\<close> and \<^verbatim>\<open>set_weights\<close>. The dictionary with the two keys
  \<^verbatim>\<open>'weights'\<close> and \<^verbatim>\<open>'biases'\<close> is a record. \<^verbatim>\<open>tolist()\<close> gives a flat list of floats
  for a one-dimensional array and the list of rows for a two-dimensional one; \<open>Flat []\<close>
  and \<open>Nested []\<close> both stand for the Python list \<^verbatim>\<open>[]\<close>. \<^verbatim>\<open>np.array\<close> of \<^verbatim>\<open>[]\<close> is the empty
  one-dimensional array, of a list of equally long rows the two-dimensional array, and
  it raises \<^verbatim>\<open>ValueError\<close> for rows of different lengths. The bias entries are flat lists.
  Neither function compares a shape with the topology of the network.
\<close>

datatype nested = Flat "real list" | Nested "real list list"

record weights_dict =
  wd_weights :: "nested list"
  wd_biases :: "real list list"

fun tolist :: "ndarray \<Rightarrow> nested" where
  "tolist (Arr1 xs) = Flat xs"
| "tolist (Arr2 c rs) = Nested rs"

fun np_array :: "nested \<Rightarrow> py_error + ndarray" where
  "np_array (Flat xs) = Inr (Arr1 xs)"
| "np_array (Nested []) = Inr (Arr1 [])"
| "np_array (Nested (row # rows)) =
     (if list_all (\<lambda>r. length r = length row) rows then Inr (Arr2 (length row) (row # rows))
      else Inl ValueError)"

fun np_arrays :: "nested list \<Rightarrow> py_error + ndarray list" where
  "np_arrays [] = Inr []"
| "np_arrays (w # ws) =
     (case np_array w of
        Inl err \<Rightarrow> Inl err
      | Inr a \<Rightarrow> (case np_arrays ws of Inl err \<Rightarrow> Inl err | Inr as \<Rightarrow> Inr (a # as)))"

definition get_weights :: "NeuralNetwork \<Rightarrow> weights_dict" where
  "get_weights n = \<lparr> wd_weights = map tolist (weights n), wd_biases = biases n \<rparr>"

definition set_weights :: "NeuralNetwork \<Rightarrow> weights_dict \<Rightarrow> py_error + NeuralNetwork" where
  "set_weights n d =
     (case np_arrays (wd_weights d) of
        Inl err \<Rightarrow> Inl err
      | Inr ws \<Rightarrow> Inr (n\<lparr>weights := ws, biases := wd_biases d\<rparr>))"

text \<open>
  \<^verbatim>\<open>save\<close> and \<^verbatim>\<open>load\<close>. A file holds a pickled dictionary or cannot be read
  (\<open>None\<close>); \<open>save\<close> gives the content of the file it writes.
\<close>

definition save :: "NeuralNetwork \<Rightarrow> weights_dict option" where
  "save n = Some (get_weights n)"

definition load ::
  "weights_dict option \<Rightarrow> nat \<Rightarrow> nat list \<Rightarrow> nat \<Rightarrow> (nat \<Rightarrow> nat \<Rightarrow> nat \<Rightarrow> real)
     \<Rightarrow> py_error + NeuralNetwork" where
  "load file isz hsz osz draw =
     (case NeuralNetwork_init isz hsz osz draw of
        Inl err \<Rightarrow> Inl err
      | Inr network \<Rightarrow>
          (case file of
             None \<Rightarrow> Inl OSError
           | Some d \<Rightarrow> set_weights network d))"

text \<open>
  \<^verbatim>\<open>mutate\<close>. The uniform draws of the masks and the normal draws of the perturbations
  are arguments, indexed by layer, row and column (row 0 for a one-dimensional array).
  \<^verbatim>\<open>weights[i] += mask * mutations\<close> adds the perturbation where the mask holds and 0
  elsewhere; the shape is that of \<^verbatim>\<open>weights[i]\<close>.
\<close>

record mutate_draws =
  weight_mask_draw :: "nat \<Rightarrow> nat \<Rightarrow> nat \<Rightarrow> real"
  weight_mutation :: "nat \<Rightarrow> nat \<Rightarrow> nat \<Rightarrow> real"
  bias_mask_draw :: "nat \<Rightarrow> nat \<Rightarrow> real"
  bias_mutation :: "nat \<Rightarrow> nat \<Rightarrow> real"

definition mutate_vector :: "(nat \<Rightarrow> real) \<Rightarrow> (nat \<Rightarrow> real) \<Rightarrow> real \<Rightarrow> vector \<Rightarrow> vector" where
  "mutate_vector u m rate v =
     map (\<lambda>c. v ! c + (if u c < rate then 1 else 0) * m c) [0 ..< length v]"

fun mutate_array ::
  "(nat \<Rightarrow> nat \<Rightarrow> real) \<Rightarrow> (nat \<Rightarrow> nat \<Rightarrow> real) \<Rightarrow> real \<Rightarrow> ndarray \<Rightarrow> ndarray" where
  "mutate_array u m rate (Arr1 xs) = Arr1 (mutate_vector (u 0) (m 0) rate xs)"
| "mutate_array u m rate (Arr2 c rs) =
     Arr2 c (map (\<lambda>r. mutate_vector (u r) (m r) rate (rs ! r)) [0 ..< length rs])"

fun mutate_loop :: "mutate_draws \<Rightarrow> real \<Rightarrow> nat list \<Rightarrow> NeuralNetwork \<Rightarrow> py_error + NeuralNetwork" where
  "mutate_loop rnd rate [] n = Inr n"
| "mutate_loop rnd rate (i # is) n =
     (let n1 = n\<lparr>weights := (weights n)[i := mutate_array (weight_mask_draw rnd i)
                                              (weight_mutation rnd i) rate (weights n ! i)]\<rparr>
      in if length (biases n1) \<le> i then Inl IndexError
         else mutate_loop rnd rate is
                (n1\<lparr>biases := (biases n1)[i := mutate_vector (bias_mask_draw rnd i)
                                               (bias_mutation rnd i) rate (biases n1 ! i)]\<rparr>))"

definition mutate :: "NeuralNetwork \<Rightarrow> real \<Rightarrow> mutate_draws \<Rightarrow> py_error + NeuralNetwork" where
  "mutate n mutation_rate rnd = mutate_loop rnd mutation_rate [0 ..< length (weights n)] n"

text \<open>
  \<^verbatim>\<open>crossover\<close>. The draws are those of the child's constructor and of the two masks per
  layer. \<^verbatim>\<open>np.where(mask, a, b)\<close>, where the mask has the shape of \<open>a\<close>, broadcasts \<open>a\<close> and
  \<open>b\<close>: in each dimension the two sizes must be equal or one of them 1 (\<open>bdim\<close>), the
  operand of size 1 is repeated (\<open>bidx\<close>), and anything else raises \<^verbatim>\<open>ValueError\<close>. The
  result takes the element of \<open>a\<close> where the mask holds and that of \<open>b\<close> elsewhere; it is
  one-dimensional when both operands are. The right-hand side is evaluated before the
  assignment to \<^verbatim>\<open>child.weights[i]\<close>, which raises \<^verbatim>\<open>IndexError\<close> when the child has fewer
  layers. The method assigns to the child only; the result is the child together with
  the two parents as they are afterwards.
\<close>

record crossover_draws =
  child_draw :: "nat \<Rightarrow> nat \<Rightarrow> nat \<Rightarrow> real"
  weight_cross_draw :: "nat \<Rightarrow> nat \<Rightarrow> nat \<Rightarrow> real"
  bias_cross_draw :: "nat \<Rightarrow> nat \<Rightarrow> real"

definition bdim :: "nat \<Rightarrow> nat \<Rightarrow> nat option" where
  "bdim da db =
     (if da = db then Some da else if da = 1 then Some db else if db = 1 then Some da else None)"

definition bidx :: "nat \<Rightarrow> nat \<Rightarrow> nat" where
  "bidx d k = (if d = 1 then 0 else k)"

definition np_where1 :: "(nat \<Rightarrow> real) \<Rightarrow> real \<Rightarrow> vector \<Rightarrow> vector \<Rightarrow> py_error + vector" where
  "np_where1 u rate a b =
     (case bdim (length a) (length b) of
        None \<Rightarrow> Inl ValueError
      | Some n \<Rightarrow>
          Inr (map (\<lambda>k. if u (bidx (length a) k) < rate then a ! bidx (length a) k
                        else b ! bidx (length b) k) [0 ..< n]))"

definition np_where2 ::
  "(nat \<Rightarrow> nat \<Rightarrow> real) \<Rightarrow> real \<Rightarrow> ndarray \<Rightarrow> ndarray \<Rightarrow> py_error + ndarray" where
  "np_where2 u rate a b =
     (case bdim (nrows a) (nrows b) of
        None \<Rightarrow> Inl ValueError
      | Some m \<Rightarrow>
          (case bdim (ncols a) (ncols b) of
             None \<Rightarrow> Inl ValueError
           | Some n \<Rightarrow>
               let pick = (\<lambda>r k. if u (bidx (nrows a) r) (bidx (ncols a) k) < rate
                                  then elem a (bidx (nrows a) r) (bidx (ncols a) k)
                                  else elem b (bidx (nrows b) r) (bidx (ncols b) k))
               in Inr (if is_1d a \<and> is_1d b then Arr1 (map (pick 0) [0 ..< n])
                       else Arr2 n (map (\<lambda>r. map (pick r) [0 ..< n]) [0 ..< m]))))"

fun crossover_loop ::
  "crossover_draws \<Rightarrow> real \<Rightarrow> NeuralNetwork \<Rightarrow> NeuralNetwork \<Rightarrow> nat list \<Rightarrow> NeuralNetwork
     \<Rightarrow> py_error + NeuralNetwork" where
  "crossover_loop rnd rate self other [] child = Inr child"
| "crossover_loop rnd rate self other (i # is) child =
     (if length (weights other) \<le> i then Inl IndexError
      else case np_where2 (weight_cross_draw rnd i) rate (weights self ! i) (weights other ! i) of
             Inl err \<Rightarrow> Inl err
           | Inr w \<Rightarrow>
               if length (weights child) \<le> i then Inl IndexError
               else if length (biases self) \<le> i then Inl IndexError
               else if length (biases other) \<le> i then Inl IndexError
               else case np_where1 (bias_cross_draw rnd i) rate (biases self ! i) (biases other ! i) of
                      Inl err \<Rightarrow> Inl err
                    | Inr b \<Rightarrow>
                        if length (biases child) \<le> i then Inl IndexError
                        else crossover_loop rnd rate self other is
                               (child\<lparr>weights := (weights child)[i := w],
                                      biases := (biases child)[i := b]\<rparr>))"

definition crossover ::
  "NeuralNetwork \<Rightarrow> NeuralNetwork \<Rightarrow> real \<Rightarrow> crossover_draws
     \<Rightarrow> py_error + (NeuralNetwork \<times> NeuralNetwork \<times> NeuralNetwork)" where
  "crossover self other crossover_rate rnd =
     (case NeuralNetwork_init (input_size self) (hidden_sizes self) (output_size self)
             (child_draw rnd) of
        Inl err \<Rightarrow> Inl err
      | Inr child0 \<Rightarrow>
          (case crossover_loop rnd crossover_rate self other [0 ..< length (weights self)] child0 of
             Inl err \<Rightarrow> Inl err
           | Inr child \<Rightarrow> Inr (child, self, other)))"

text \<open>
  The arrays of a network have the shapes of its topology: what the constructor makes
  (which does not raise), and what \<open>mutate\<close> and \<open>crossover\<close> keep.
\<close>

definition layer_sizes :: "NeuralNetwork \<Rightarrow> nat list" where
  "layer_sizes n = [input_size n] @ hidden_sizes n @ [output_size n]"

definition has_topology :: "NeuralNetwork \<Rightarrow> bool" where
  "has_topology n \<longleftrightarrow>
     length (weights n) = length (hidden_sizes n) + 1
     \<and> length (biases n) = length (hidden_sizes n) + 1
     \<and> list_all (\<lambda>i. layer_sizes n ! i + layer_sizes n ! (i + 1) \<noteq> 0
                     \<and> shape (weights n ! i) = [layer_sizes n ! i, layer_sizes n ! (i + 1)]
                     \<and> wf_array (weights n ! i)
                     \<and> length (biases n ! i) = layer_sizes n ! (i + 1))
                [0 ..< length (hidden_sizes n) + 1]"




text \<open>
  Two example networks of topology \<open>(2, [], 1)\<close> and example draws for a crossover.
\<close>

definition parent_a :: NeuralNetwork where
  "parent_a = \<lparr> input_size = 2, hidden_sizes = [], output_size = 1,
                 weights = [Arr2 1 [[1], [2]]], biases = [[3]], activations = [] \<rparr>"

definition parent_b :: NeuralNetwork where
  "parent_b = \<lparr> input_size = 2, hidden_sizes = [], output_size = 1,
                 weights = [Arr2 1 [[4], [5]]], biases = [[6]], activations = [] \<rparr>"


text \<open>
  \<open>reread a\<close> is \<^verbatim>\<open>np.array(a.tolist())\<close> for an array \<open>a\<close> with rows of equal length: the
  same array, except that a two-dimensional array without rows comes back as the empty
  one-dimensional array. A network is \<open>consistent\<close> when the rows of each weight matrix
  have the stored length and the bias of a layer whose weight matrix has no rows has
  one entry per column of that matrix; a network whose arrays have the shapes of its
  topology is consistent.
\<close>

fun reread :: "ndarray \<Rightarrow> ndarray" where
  "reread (Arr1 xs) = Arr1 xs"
| "reread (Arr2 c []) = Arr1 []"
| "reread (Arr2 c (row # rows)) = Arr2 c (row # rows)"

definition consistent :: "NeuralNetwork \<Rightarrow> bool" where
  "consistent n \<longleftrightarrow>
     list_all (\<lambda>i. wf_array (weights n ! i)
                   \<and> (nrows (weights n ! i) = 0 \<and> i < length (biases n)
                        \<longrightarrow> length (biases n ! i) = ncols (weights n ! i)))
              [0 ..< length (weights n)]"

section \<open>Tournament selection (ml/evolution.py)\<close>

text \<open>
  \<^verbatim>\<open>np.argmax\<close> of a non-empty sequence: the index of the first occurrence of the largest
  value, found by one scan that keeps the best index and value so far.
\<close>

fun argmax_scan :: "'f::linorder list \<Rightarrow> nat \<Rightarrow> nat \<Rightarrow> 'f \<Rightarrow> nat" where
  "argmax_scan [] i best bv = best"
| "argmax_scan (x # xs) i best bv =
     (if bv < x then argmax_scan xs (i + 1) i x else argmax_scan xs (i + 1) best bv)"

fun np_argmax :: "'f::linorder list \<Rightarrow> py_error + nat" where
  "np_argmax [] = Inl ValueError"
| "np_argmax (x # xs) = Inr (argmax_scan xs 1 0 x)"

text \<open>
  \<^verbatim>\<open>EvolutionManager.select_parents\<close>. \<^verbatim>\<open>int(len(population) * 0.1)\<close> truncates the
  product. The indices that \<^verbatim>\<open>np.random.choice(len(population), tournament_size,
  replace=False)\<close> draws are an argument of \<open>select_one\<close>; the call raises \<^verbatim>\<open>ValueError\<close>
  when the tournament is larger than the population. A draw is a list of
  \<open>tournament_size\<close> distinct indices below the population size (\<open>valid_sample\<close>).
\<close>

definition tournament_size :: "nat \<Rightarrow> nat" where
  "tournament_size n = max 2 (nat \<lfloor>real n * (1 / 10)\<rfloor>)"

definition valid_sample :: "nat \<Rightarrow> nat \<Rightarrow> nat list \<Rightarrow> bool" where
  "valid_sample n k s \<longleftrightarrow> length s = k \<and> distinct s \<and> list_all (\<lambda>i. i < n) s"

definition select_one :: "'a list \<Rightarrow> 'f::linorder list \<Rightarrow> nat list \<Rightarrow> py_error + 'a" where
  "select_one population fitnesses tournament_indices =
     (if length population < tournament_size (length population) then Inl ValueError
      else if list_ex (\<lambda>i. length fitnesses \<le> i) tournament_indices then Inl IndexError
      else
        let tournament_fitnesses = map (\<lambda>i. fitnesses ! i) tournament_indices
        in case np_argmax tournament_fitnesses of
             Inl err \<Rightarrow> Inl err
           | Inr k \<Rightarrow>
               let winner_idx = tournament_indices ! k
               in if length population \<le> winner_idx then Inl IndexError
                  else Inr (population ! winner_idx))"

definition select_parents ::
  "'a list \<Rightarrow> 'f::linorder list \<Rightarrow> nat list \<Rightarrow> nat list \<Rightarrow> py_error + ('a \<times> 'a)" where
  "select_parents population fitnesses draw1 draw2 =
     (case select_one population fitnesses draw1 of
        Inl err \<Rightarrow> Inl err
      | Inr parent1 \<Rightarrow>
          (case select_one population fitnesses draw2 of
             Inl err \<Rightarrow> Inl err
           | Inr parent2 \<Rightarrow> Inr (parent1, parent2)))"

section \<open>Vector operations (utils/vector.py)\<close>

definition vec_add :: "Vector2D \<Rightarrow> Vector2D \<Rightarrow> Vector2D" where
  "vec_add a b = Vector2D (vx a + vx b) (vy a + vy b)"

definition vec_sub :: "Vector2D \<Rightarrow> Vector2D \<Rightarrow> Vector2D" where
  "vec_sub a b = Vector2D (vx a - vx b) (vy a - vy b)"

definition vec_mul :: "Vector2D \<Rightarrow> real \<Rightarrow> Vector2D" where
  "vec_mul a scalar = Vector2D (vx a * scalar) (vy a * scalar)"

definition magnitude :: "Vector2D \<Rightarrow> real" where
  "magnitude a = sqrt (vx a * vx a + vy a * vy a)"

definition normalized :: "Vector2D \<Rightarrow> Vector2D" where
  "normalized a =
     (let mag = magnitude a
      in if mag = 0 then Vector2D 0 0 else Vector2D (vx a / mag) (vy a / mag))"

definition rotate :: "Vector2D \<Rightarrow> real \<Rightarrow> Vector2D" where
  "rotate a angle =
     (let cos_theta = cos angle; sin_theta = sin angle
      in Vector2D (vx a * cos_theta - vy a * sin_theta) (vx a * sin_theta + vy a * cos_theta))"

section \<open>Food and Environment (core/food.py, core/environment.py)\<close>

text \<open>
  A \<^verbatim>\<open>Food\<close> object never changes after its construction and has no \<^verbatim>\<open>__eq__\<close>, so
  \<^verbatim>\<open>in\<close> and \<^verbatim>\<open>list.remove\<close> compare object identities; \<open>food_id\<close> is that identity. The
  display colour is left out.
\<close>

record Food =
  food_id :: nat
  food_position :: Vector2D
  food_energy :: int
  food_size :: int

record Environment =
  env_width :: int
  env_height :: int
  food_sources :: "Food list"
  pheromone_system :: PheromoneSystem
  elapsed_steps :: int

text \<open>\<^verbatim>\<open>Environment.remove_food\<close>: removes the first entry that is the given object.\<close>

fun remove_first :: "nat \<Rightarrow> Food list \<Rightarrow> Food list" where
  "remove_first k [] = []"
| "remove_first k (f # fs) = (if food_id f = k then fs else f # remove_first k fs)"

definition remove_food :: "Environment \<Rightarrow> Food option \<Rightarrow> Environment" where
  "remove_food env food =
     (case food of
        None \<Rightarrow> env
      | Some f \<Rightarrow>
          if list_ex (\<lambda>g. food_id g = food_id f) (food_sources env)
          then env\<lparr>food_sources := remove_first (food_id f) (food_sources env)\<rparr>
          else env)"

definition env_add_pheromone ::
  "Environment \<Rightarrow> Vector2D \<Rightarrow> string \<Rightarrow> real \<Rightarrow> py_error + Environment" where
  "env_add_pheromone env pos pheromone_type amount =
     (case add_pheromone (pheromone_system env) pos pheromone_type amount of
        Inl err \<Rightarrow> Inl err
      | Inr p \<Rightarrow> Inr (env\<lparr>pheromone_system := p\<rparr>))"

text \<open>
  \<^verbatim>\<open>PheromoneSystem.get_intensity\<close>: the three sampled cells \<^verbatim>\<open>ahead\<close>, \<^verbatim>\<open>left\<close> and
  \<^verbatim>\<open>right\<close>, read in that order. \<^verbatim>\<open>%\<close> on integers raises on a zero divisor.
\<close>

definition get_grid_value ::
  "PheromoneSystem \<Rightarrow> grid \<Rightarrow> int \<Rightarrow> int \<Rightarrow> int \<Rightarrow> int \<Rightarrow> py_error + real" where
  "get_grid_value p g grid_x grid_y dx dy =
     (if grid_width p = 0 then Inl ZeroDivisionError
      else if grid_height p = 0 then Inl ZeroDivisionError
      else
        let gx = (grid_x + dx) mod grid_width p;
            gy = (grid_y + dy) mod grid_height p
        in case np_index (length g) gx of
             None \<Rightarrow> Inl IndexError
           | Some i \<Rightarrow>
               (case np_index (length (g ! i)) gy of
                  None \<Rightarrow> Inl IndexError
                | Some j \<Rightarrow> Inr (g ! i ! j)))"

definition get_intensity ::
  "PheromoneSystem \<Rightarrow> Vector2D \<Rightarrow> string \<Rightarrow> int \<Rightarrow> py_error + (real \<times> real \<times> real)" where
  "get_intensity p pos pheromone_type rad =
     (case map_of (grids p) pheromone_type of
        None \<Rightarrow> Inr (0, 0, 0)
      | Some g \<Rightarrow>
          if resolution p = 0 then Inl ZeroDivisionError
          else
            let grid_x = grid_coord (vx pos) (resolution p) (grid_width p);
                grid_y = grid_coord (vy pos) (resolution p) (grid_height p);
                grid_radius = max 1 (rad div resolution p)
            in case get_grid_value p g grid_x grid_y 0 (- grid_radius) of
                 Inl err \<Rightarrow> Inl err
               | Inr ahead \<Rightarrow>
                   (case get_grid_value p g grid_x grid_y (- grid_radius) 0 of
                      Inl err \<Rightarrow> Inl err
                    | Inr left \<Rightarrow>
                        (case get_grid_value p g grid_x grid_y grid_radius 0 of
                           Inl err \<Rightarrow> Inl err
                         | Inr right \<Rightarrow> Inr (ahead, left, right))))"

definition wrap_vector :: "Environment \<Rightarrow> Vector2D \<Rightarrow> Vector2D" where
  "wrap_vector env v =
     (let x1 = (if \<bar>vx v\<bar> > real_of_int (env_width env) / 2
                then (if vx v > 0 then vx v - real_of_int (env_width env)
                      else vx v + real_of_int (env_width env))
                else vx v);
          y1 = (if \<bar>vy v\<bar> > real_of_int (env_height env) / 2
                then (if vy v > 0 then vy v - real_of_int (env_height env)
                      else vy v + real_of_int (env_height env))
                else vy v)
      in Vector2D x1 y1)"

section \<open>MLAgent (ml/agent.py)\<close>

record MLAgent =
  network :: NeuralNetwork
  learning_rate :: real
  discount_factor :: real
  last_state :: "vector option"
  last_action :: "vector option"

definition MLAgent_init ::
  "NeuralNetwork option \<Rightarrow> (nat \<Rightarrow> nat \<Rightarrow> nat \<Rightarrow> real) \<Rightarrow> py_error + MLAgent" where
  "MLAgent_init net draw =
     (case (case net of
              None \<Rightarrow> NeuralNetwork_init 15 NEURAL_NETWORK_LAYERS 4 draw
            | Some n \<Rightarrow> Inr n) of
        Inl err \<Rightarrow> Inl err
      | Inr n \<Rightarrow>
          Inr \<lparr> network = n, learning_rate = 1 / 100, discount_factor = 95 / 100,
                last_state = None, last_action = None \<rparr>)"

definition activate_outputs :: "vector \<Rightarrow> vector" where
  "activate_outputs outputs = map (\<lambda>v. 1 / (1 + exp (- v))) outputs"

text \<open>
  \<^verbatim>\<open>MLAgent.process\<close>: an input vector of another length than \<^verbatim>\<open>network.input_size\<close> is
  padded with zeros or truncated before the forward pass.
\<close>

definition adjust_inputs :: "nat \<Rightarrow> vector \<Rightarrow> vector" where
  "adjust_inputs n inputs =
     (if length inputs \<noteq> n then
        (if length inputs < n then inputs @ replicate (n - length inputs) 0
         else take n inputs)
      else inputs)"

definition process :: "MLAgent \<Rightarrow> vector \<Rightarrow> py_error + (vector \<times> MLAgent)" where
  "process agent inputs =
     (let a1 = agent\<lparr>last_state := Some inputs\<rparr>
      in case forward (network a1) (adjust_inputs (input_size (network a1)) inputs) of
           Inl err \<Rightarrow> Inl err
         | Inr (outputs, n) \<Rightarrow>
             let processed_outputs = activate_outputs outputs
             in Inr (processed_outputs,
                     a1\<lparr>network := n, last_action := Some processed_outputs\<rparr>))"

definition MLAgent_mutate :: "MLAgent \<Rightarrow> real \<Rightarrow> mutate_draws \<Rightarrow> py_error + MLAgent" where
  "MLAgent_mutate agent mutation_rate rnd =
     (case mutate (network agent) mutation_rate rnd of
        Inl err \<Rightarrow> Inl err
      | Inr n \<Rightarrow> Inr (agent\<lparr>network := n\<rparr>))"

definition MLAgent_crossover ::
  "MLAgent \<Rightarrow> MLAgent \<Rightarrow> real \<Rightarrow> crossover_draws \<Rightarrow> py_error + MLAgent" where
  "MLAgent_crossover agent other_agent crossover_rate rnd =
     (case crossover (network agent) (network other_agent) crossover_rate rnd of
        Inl err \<Rightarrow> Inl err
      | Inr (new_network, n1, n2) \<Rightarrow> MLAgent_init (Some new_network) (child_draw rnd))"

definition MLAgent_set_weights :: "MLAgent \<Rightarrow> weights_dict \<Rightarrow> py_error + MLAgent" where
  "MLAgent_set_weights agent d =
     (case set_weights (network agent) d of
        Inl err \<Rightarrow> Inl err
      | Inr n \<Rightarrow> Inr (agent\<lparr>network := n\<rparr>))"

section \<open>Ant and Colony (core/ant.py, core/colony.py)\<close>

text \<open>
  An ant refers to its brain, an \<^verbatim>\<open>MLAgent\<close> object, by address: \<open>agents\<close> is the store of
  those objects and \<open>next_agent\<close> the next free address. The fields \<^verbatim>\<open>colony\<close> and
  \<^verbatim>\<open>environment\<close> of an ant are the colony that holds it and its environment.
  \<^verbatim>\<open>float('inf')\<close> in the two remembered distances is \<open>None\<close>.
\<close>

record Ant =
  position :: Vector2D
  velocity :: Vector2D
  direction :: Vector2D
  speed :: real
  age :: int
  energy :: real
  carrying_food :: bool
  food_item :: "Food option"
  alive :: bool
  brain :: nat
  last_food_distance :: "real option"
  last_nest_distance :: "real option"
  memory :: "(vector \<times> vector \<times> real) list"
  was_carrying_food :: bool

record Colony =
  environment :: Environment
  nest :: Nest
  food_collected :: int
  food_delivered :: int
  total_steps :: int
  generation :: int
  ants_born :: int
  ants_died :: int
  ants :: "Ant list"
  agents :: "nat \<Rightarrow> MLAgent"
  next_agent :: nat

text \<open>
  \<^verbatim>\<open>Ant.__init__\<close>. The angle of \<^verbatim>\<open>random_unit_vector\<close> and the draws of a new brain are
  arguments; a brain that is passed in is given by its address.
\<close>

definition Ant_init ::
  "Colony \<Rightarrow> Vector2D option \<Rightarrow> nat option \<Rightarrow> real \<Rightarrow> (nat \<Rightarrow> nat \<Rightarrow> nat \<Rightarrow> real)
     \<Rightarrow> py_error + (Ant \<times> Colony)" where
  "Ant_init c pos brain_ref angle draw =
     (let p = (case pos of
                 None \<Rightarrow> Vector2D (vx (nest_position (nest c))) (vy (nest_position (nest c)))
               | Some q \<Rightarrow> Vector2D (vx q) (vy q))
      in case (case brain_ref of
                 Some b \<Rightarrow> Inr (b, c)
               | None \<Rightarrow>
                   (case MLAgent_init None draw of
                      Inl err \<Rightarrow> Inl err
                    | Inr agent \<Rightarrow>
                        Inr (next_agent c,
                             c\<lparr>agents := (agents c)(next_agent c := agent),
                               next_agent := next_agent c + 1\<rparr>))) of
           Inl err \<Rightarrow> Inl err
         | Inr (b, c1) \<Rightarrow>
             Inr (\<lparr> position = p, velocity = Vector2D 0 0,
                     direction = Vector2D (cos angle) (sin angle),
                     speed = real_of_int ANT_SPEED, age = 0, energy = INITIAL_ENERGY,
                     carrying_food = False, food_item = None, alive = True, brain = b,
                     last_food_distance = None, last_nest_distance = None, memory = [],
                     was_carrying_food = False \<rparr>, c1))"

text \<open>
  \<^verbatim>\<open>Ant.sense_environment\<close>. The loop over the food sources keeps the nearest source in
  vision range with its distance (\<open>None\<close> while \<^verbatim>\<open>nearest_food\<close> is \<^verbatim>\<open>None\<close> and the distance
  infinite) and the direction to it.
\<close>

definition nearest_food_step ::
  "Ant \<Rightarrow> Environment \<Rightarrow> Food \<Rightarrow> (Food \<times> real) option \<times> Vector2D
     \<Rightarrow> (Food \<times> real) option \<times> Vector2D" where
  "nearest_food_step a env food st =
     (let food_vector0 = vec_sub (food_position food) (position a);
          food_vector = (if WRAP_WORLD then wrap_vector env food_vector0 else food_vector0);
          food_distance = magnitude food_vector
      in if (case fst st of None \<Rightarrow> True | Some (f, d) \<Rightarrow> food_distance < d)
            \<and> food_distance < real_of_int ANT_VISION_RANGE
         then (Some (food, food_distance), normalized food_vector)
         else st)"

definition sense_environment :: "Ant \<Rightarrow> Colony \<Rightarrow> py_error + vector" where
  "sense_environment a c =
     (let env = environment c;
          nest_vector0 = vec_sub (nest_position (nest c)) (position a);
          nest_vector = (if WRAP_WORLD then wrap_vector env nest_vector0 else nest_vector0);
          distance_to_nest = magnitude nest_vector;
          direction_to_nest = normalized nest_vector;
          (nearest, direction_to_food) =
             fold (nearest_food_step a env) (food_sources env) (None, Vector2D 0 0)
      in case get_intensity (pheromone_system env) (position a) ''food'' ANT_VISION_RANGE of
           Inl err \<Rightarrow> Inl err
         | Inr (food_ahead, food_left, food_right) \<Rightarrow>
             (case get_intensity (pheromone_system env) (position a) ''home'' ANT_VISION_RANGE of
                Inl err \<Rightarrow> Inl err
              | Inr (home_ahead, home_left, home_right) \<Rightarrow>
                  Inr [distance_to_nest / real_of_int WORLD_WIDTH,
                       vx direction_to_nest,
                       vy direction_to_nest,
                       (case nearest of None \<Rightarrow> 0 | Some (f, d) \<Rightarrow> 1),
                       (case nearest of None \<Rightarrow> 1
                        | Some (f, d) \<Rightarrow> d / real_of_int ANT_VISION_RANGE),
                       vx direction_to_food,
                       vy direction_to_food,
                       food_ahead / real_of_int PHEROMONE_DEPOSIT,
                       food_left / real_of_int PHEROMONE_DEPOSIT,
                       food_right / real_of_int PHEROMONE_DEPOSIT,
                       home_ahead / real_of_int PHEROMONE_DEPOSIT,
                       home_left / real_of_int PHEROMONE_DEPOSIT,
                       home_right / real_of_int PHEROMONE_DEPOSIT,
                       (if carrying_food a then 1 else 0),
                       energy a / INITIAL_ENERGY]))"

text \<open>\<^verbatim>\<open>Ant.think\<close>: the brain processes the inputs and is changed by it.\<close>

definition think :: "Ant \<Rightarrow> vector \<Rightarrow> Colony \<Rightarrow> py_error + (vector \<times> Colony)" where
  "think a inputs c =
     (case process (agents c (brain a)) inputs of
        Inl err \<Rightarrow> Inl err
      | Inr (outputs, agent) \<Rightarrow> Inr (outputs, c\<lparr>agents := (agents c)(brain a := agent)\<rparr>))"

definition Colony_add_food :: "Colony \<Rightarrow> int \<Rightarrow> Colony" where
  "Colony_add_food c amount =
     c\<lparr>food_collected := food_collected c + amount, food_delivered := food_delivered c + 1\<rparr>"

text \<open>
  \<^verbatim>\<open>Ant.apply_action\<close>. \<^verbatim>\<open>%\<close> on a float and a positive integer is \<open>float_mod\<close>. Reading
  one of the four action components of a shorter output vector raises \<^verbatim>\<open>IndexError\<close>.
  \<open>at_nest\<close> and \<open>in_pickup_range\<close> are the two distance tests of the food handling.
  The result is the ant and the colony (with its environment) afterwards.
\<close>

definition float_mod :: "real \<Rightarrow> int \<Rightarrow> real" where
  "float_mod x m = x - real_of_int m * real_of_int \<lfloor>x / real_of_int m\<rfloor>"

definition move :: "Ant \<Rightarrow> real \<Rightarrow> real \<Rightarrow> Ant" where
  "move a turn_amount speed_factor =
     (let dir = rotate (direction a) (turn_amount * pi / 4);
          vel = vec_mul (vec_mul dir (speed a)) speed_factor;
          new_position = vec_add (position a) vel;
          wrapped =
            (if WRAP_WORLD
             then Vector2D (float_mod (vx new_position) WORLD_WIDTH)
                           (float_mod (vy new_position) WORLD_HEIGHT)
             else Vector2D (max 0 (min (vx new_position) (real_of_int WORLD_WIDTH)))
                           (max 0 (min (vy new_position) (real_of_int WORLD_HEIGHT))))
      in a\<lparr>direction := dir, velocity := vel, position := wrapped\<rparr>)"

definition at_nest :: "Ant \<Rightarrow> Colony \<Rightarrow> bool" where
  "at_nest a c \<longleftrightarrow>
     magnitude (vec_sub (position a) (nest_position (nest c))) < real_of_int NEST_RADIUS"

definition in_pickup_range :: "Ant \<Rightarrow> Food \<Rightarrow> bool" where
  "in_pickup_range a food \<longleftrightarrow>
     magnitude (vec_sub (position a) (food_position food)) < real_of_int (ANT_SIZE + FOOD_SIZE)"

definition handle_food :: "Ant \<Rightarrow> bool \<Rightarrow> Colony \<Rightarrow> Ant \<times> Colony" where
  "handle_food a pickup_food c =
     (if carrying_food a then
        (if at_nest a c then
           (let c1 = Colony_add_food c FOOD_ENERGY
            in (a\<lparr>carrying_food := False, food_item := None\<rparr>,
                c1\<lparr>environment := remove_food (environment c1) (food_item a)\<rparr>))
         else (a, c))
      else if pickup_food \<and> \<not> carrying_food a then
        (case find (in_pickup_range a) (food_sources (environment c)) of
           None \<Rightarrow> (a, c)
         | Some food \<Rightarrow> (a\<lparr>carrying_food := True, food_item := Some food\<rparr>, c))
      else (a, c))"

definition grow_older :: "Ant \<Rightarrow> Ant" where
  "grow_older a =
     (let a1 = a\<lparr>energy := energy a - ANT_ENERGY_CONSUMPTION\<rparr>;
          a2 = (if energy a1 \<le> 0 then a1\<lparr>alive := False\<rparr> else a1);
          a3 = a2\<lparr>age := age a2 + 1\<rparr>
      in if age a3 > ANT_LIFESPAN then a3\<lparr>alive := False\<rparr> else a3)"

definition apply_action :: "Ant \<Rightarrow> vector \<Rightarrow> Colony \<Rightarrow> py_error + (Ant \<times> Colony)" where
  "apply_action a action_outputs c =
     (if length action_outputs < 4 then Inl IndexError
      else
        let turn_amount = action_outputs ! 0 * 2 - 1;
            speed_factor = action_outputs ! 1;
            drop_pheromone = (action_outputs ! 2 > 1 / 2);
            pickup_food = (action_outputs ! 3 > 1 / 2);
            a1 = move a turn_amount speed_factor
        in case (if drop_pheromone
                 then env_add_pheromone (environment c) (position a1)
                        (if carrying_food a1 then ''home'' else ''food'')
                        (real_of_int PHEROMONE_DEPOSIT)
                 else Inr (environment c)) of
             Inl err \<Rightarrow> Inl err
           | Inr env1 \<Rightarrow>
               let (a2, c2) = handle_food a1 pickup_food (c\<lparr>environment := env1\<rparr>)
               in Inr (grow_older a2, c2))"

text \<open>\<^verbatim>\<open>Ant.update_memory\<close> and \<^verbatim>\<open>Ant.update\<close>.\<close>

definition closer :: "real \<Rightarrow> real option \<Rightarrow> bool" where
  "closer d previous = (case previous of None \<Rightarrow> True | Some l \<Rightarrow> d < l)"

definition update_memory :: "Ant \<Rightarrow> vector \<Rightarrow> vector \<Rightarrow> py_error + Ant" where
  "update_memory a inputs outputs =
     (if (\<not> carrying_food a \<and> length inputs \<le> 4) \<or> (carrying_food a \<and> length inputs \<le> 0)
      then Inl IndexError
      else
        let food_distance = inputs ! 4 * real_of_int ANT_VISION_RANGE;
            r1 = (if \<not> carrying_food a \<and> closer food_distance (last_food_distance a)
                  then 1 / 10 else 0);
            a1 = (if \<not> carrying_food a then a\<lparr>last_food_distance := Some food_distance\<rparr> else a);
            nest_distance = inputs ! 0 * real_of_int WORLD_WIDTH;
            r2 = (if carrying_food a1 \<and> closer nest_distance (last_nest_distance a1)
                  then r1 + 1 / 10 else r1);
            a2 = (if carrying_food a1 then a1\<lparr>last_nest_distance := Some nest_distance\<rparr> else a1);
            r3 = (if carrying_food a2 \<and> food_item a2 \<noteq> None then r2 + 1 else r2);
            r4 = (if \<not> carrying_food a2 \<and> food_item a2 = None \<and> was_carrying_food a2
                  then r3 + 10 else r3);
            a3 = a2\<lparr>was_carrying_food := carrying_food a2\<rparr>;
            a4 = a3\<lparr>memory := memory a3 @ [(inputs, outputs, r4)]\<rparr>
        in Inr (if length (memory a4) > 1000 then a4\<lparr>memory := tl (memory a4)\<rparr> else a4))"

definition Ant_update :: "Ant \<Rightarrow> Colony \<Rightarrow> py_error + (Ant \<times> Colony)" where
  "Ant_update a c =
     (if \<not> alive a then Inr (a, c)
      else case sense_environment a c of
             Inl err \<Rightarrow> Inl err
           | Inr inputs \<Rightarrow>
               (case think a inputs c of
                  Inl err \<Rightarrow> Inl err
                | Inr (outputs, c1) \<Rightarrow>
                    (case apply_action a outputs c1 of
                       Inl err \<Rightarrow> Inl err
                     | Inr (a1, c2) \<Rightarrow>
                         (case update_memory a1 inputs outputs of
                            Inl err \<Rightarrow> Inl err
                          | Inr a2 \<Rightarrow> Inr (a2, c2)))))"

text \<open>
  \<^verbatim>\<open>Colony.update\<close> with \<^verbatim>\<open>process_dead_ants\<close> and \<^verbatim>\<open>spawn_new_ants\<close>. The ants that are
  alive at the start are updated in list order, each in place. The draws for the ant
  that may be spawned are arguments.
\<close>

fun update_ants :: "nat list \<Rightarrow> Colony \<Rightarrow> py_error + Colony" where
  "update_ants [] c = Inr c"
| "update_ants (i # is) c =
     (case Ant_update (ants c ! i) c of
        Inl err \<Rightarrow> Inl err
      | Inr (a, c1) \<Rightarrow> update_ants is (c1\<lparr>ants := (ants c1)[i := a]\<rparr>))"

definition process_dead_ants :: "Colony \<Rightarrow> Colony" where
  "process_dead_ants c =
     (let initial_count = int (length (ants c));
          c1 = c\<lparr>ants := filter alive (ants c)\<rparr>;
          newly_dead = initial_count - int (length (ants c1))
      in c1\<lparr>ants_died := ants_died c1 + newly_dead\<rparr>)"

definition spawn_new_ants ::
  "Colony \<Rightarrow> real \<Rightarrow> (nat \<Rightarrow> nat \<Rightarrow> nat \<Rightarrow> real) \<Rightarrow> py_error + Colony" where
  "spawn_new_ants c angle draw =
     (if food_collected c > ANT_ENERGY_FROM_FOOD \<and> length (ants c) < MAX_COLONY_SIZE then
        (let c1 = c\<lparr>food_collected := food_collected c - ANT_ENERGY_FROM_FOOD\<rparr>
         in case Ant_init c1 None None angle draw of
              Inl err \<Rightarrow> Inl err
            | Inr (new_ant, c2) \<Rightarrow>
                Inr (c2\<lparr>ants := ants c2 @ [new_ant], ants_born := ants_born c2 + 1\<rparr>))
      else Inr c)"

definition Colony_update ::
  "Colony \<Rightarrow> real \<Rightarrow> (nat \<Rightarrow> nat \<Rightarrow> nat \<Rightarrow> real) \<Rightarrow> py_error + Colony" where
  "Colony_update c angle draw =
     (let active_ants = filter (\<lambda>i. alive (ants c ! i)) [0 ..< length (ants c)]
      in case update_ants active_ants c of
           Inl err \<Rightarrow> Inl err
         | Inr c1 \<Rightarrow>
             (case spawn_new_ants (process_dead_ants c1) angle draw of
                Inl err \<Rightarrow> Inl err
              | Inr c2 \<Rightarrow> Inr (c2\<lparr>total_steps := total_steps c2 + 1\<rparr>)))"

section \<open>EvolutionManager (ml/evolution.py)\<close>

record history_entry =
  h_generation :: int
  h_max_fitness :: int
  h_avg_fitness :: real
  h_population_size :: nat

text \<open>
  \<open>best_agent\<close> is the address of an \<^verbatim>\<open>MLAgent\<close> object in the store of the colony, or
  \<open>None\<close>.
\<close>

record EvolutionManager =
  colony :: Colony
  em_generation :: int
  best_fitness :: int
  best_agent :: "nat option"
  fitness_history :: "history_entry list"

text \<open>\<^verbatim>\<open>evaluate_fitness\<close> is \<^verbatim>\<open>Ant.get_fitness\<close>: the deliveries of the whole colony.\<close>

definition evaluate_fitness :: "Colony \<Rightarrow> Ant \<Rightarrow> int" where
  "evaluate_fitness c ant = food_delivered c"

text \<open>
  \<^verbatim>\<open>create_offspring\<close>. The draws of one offspring are the two tournament samples, the
  draws of crossover and mutation and the angle of the new ant's direction. The new
  brain object is stored at the next free address.
\<close>

record offspring_draws =
  parent_draw1 :: "nat list"
  parent_draw2 :: "nat list"
  crossover_rnd :: crossover_draws
  mutate_rnd :: mutate_draws
  direction_angle :: real

definition create_offspring ::
  "Colony \<Rightarrow> Ant \<Rightarrow> Ant \<Rightarrow> real \<Rightarrow> real \<Rightarrow> offspring_draws \<Rightarrow> py_error + (Ant \<times> Colony)" where
  "create_offspring c parent1 parent2 crossover_rate mutation_rate d =
     (case MLAgent_crossover (agents c (brain parent1)) (agents c (brain parent2))
             crossover_rate (crossover_rnd d) of
        Inl err \<Rightarrow> Inl err
      | Inr brain0 \<Rightarrow>
          (case MLAgent_mutate brain0 mutation_rate (mutate_rnd d) of
             Inl err \<Rightarrow> Inl err
           | Inr offspring_brain \<Rightarrow>
               Ant_init (c\<lparr>agents := (agents c)(next_agent c := offspring_brain),
                           next_agent := next_agent c + 1\<rparr>)
                 None (Some (next_agent c)) (direction_angle d)
                 (child_draw (crossover_rnd d))))"

text \<open>
  The loop \<^verbatim>\<open>while len(new_population) < len(population)\<close> of \<^verbatim>\<open>evolve_generation\<close>;
  \<open>rnd k\<close> holds the draws for the offspring that is made when the new population has
  \<open>k\<close> members.
\<close>

function fill_population ::
  "real \<Rightarrow> real \<Rightarrow> (nat \<Rightarrow> offspring_draws) \<Rightarrow> Ant list \<Rightarrow> int list \<Rightarrow> Ant list \<Rightarrow> Colony
     \<Rightarrow> py_error + (Ant list \<times> Colony)" where
  "fill_population crossover_rate mutation_rate rnd population fitnesses new_population c =
     (if length new_population < length population then
        (case select_parents population fitnesses
                (parent_draw1 (rnd (length new_population)))
                (parent_draw2 (rnd (length new_population))) of
           Inl err \<Rightarrow> Inl err
         | Inr (parent1, parent2) \<Rightarrow>
             (case create_offspring c parent1 parent2 crossover_rate mutation_rate
                     (rnd (length new_population)) of
                Inl err \<Rightarrow> Inl err
              | Inr (offspring, c1) \<Rightarrow>
                  fill_population crossover_rate mutation_rate rnd population fitnesses
                    (new_population @ [offspring]) c1))
      else Inr (new_population, c))"
  by pat_completeness auto
termination
  by (relation "measure (\<lambda>(cr, mr, rnd, population, fitnesses, new_population, c).
                           length population - length new_population)") auto

text \<open>
  \<^verbatim>\<open>evolve_generation\<close>. The crossover and mutation rates are read from \<^verbatim>\<open>config\<close> when
  the offspring is made. The index array that \<^verbatim>\<open>np.argsort(fitnesses)\<close> returns is an
  argument (the order of equal fitnesses is not fixed by the default sort);
  \<^verbatim>\<open>[-elitism_count:]\<close> keeps its last \<open>elitism_count\<close> entries.
\<close>

definition evolve_generation ::
  "EvolutionManager \<Rightarrow> real \<Rightarrow> real \<Rightarrow> nat list \<Rightarrow> (nat \<Rightarrow> offspring_draws)
     \<Rightarrow> py_error + EvolutionManager" where
  "evolve_generation em crossover_rate mutation_rate argsort rnd =
     (if length (ants (colony em)) < 10 then Inr em
      else
        let population = ants (colony em);
            fitnesses = map (evaluate_fitness (colony em)) population
        in case np_argmax fitnesses of
             Inl err \<Rightarrow> Inl err
           | Inr max_fitness_idx \<Rightarrow>
               let current_best_fitness = fitnesses ! max_fitness_idx;
                   em1 = (if current_best_fitness > best_fitness em
                          then em\<lparr>best_fitness := current_best_fitness,
                                  best_agent := Some (brain (population ! max_fitness_idx))\<rparr>
                          else em);
                   em2 = em1\<lparr>fitness_history := fitness_history em1 @
                               [\<lparr> h_generation = em_generation em1,
                                   h_max_fitness = current_best_fitness,
                                   h_avg_fitness = np_mean (map real_of_int fitnesses),
                                   h_population_size = length population \<rparr>]\<rparr>;
                   elitism_count = max 1 (nat \<lfloor>real (length population) * (1 / 10)\<rfloor>);
                   elite_indices = drop (length argsort - elitism_count) argsort
               in if list_ex (\<lambda>idx. length population \<le> idx) elite_indices then Inl IndexError
                  else
                    case fill_population crossover_rate mutation_rate rnd population fitnesses
                           (map (\<lambda>idx. population ! idx) elite_indices) (colony em2) of
                      Inl err \<Rightarrow> Inl err
                    | Inr (new_population, c1) \<Rightarrow>
                        Inr (em2\<lparr>colony := c1\<lparr>ants := new_population,
                                                generation := em_generation em2 + 1\<rparr>,
                                 em_generation := em_generation em2 + 1\<rparr>))"

text \<open>
  \<^verbatim>\<open>load_model\<close>. The file holds a pickled dictionary or cannot be read (\<open>None\<close>); the
  entry \<^verbatim>\<open>'weights'\<close> is required, the other three have defaults. The new best agent
  is made and assigned before its weights are set; then the weights of the brain of
  every ant are set, in list order.
\<close>

record model_data =
  md_weights :: "weights_dict option"
  md_generation :: "int option"
  md_fitness :: "int option"
  md_history :: "history_entry list option"

fun set_all_weights :: "Ant list \<Rightarrow> weights_dict \<Rightarrow> Colony \<Rightarrow> py_error + Colony" where
  "set_all_weights [] d c = Inr c"
| "set_all_weights (ant # rest) d c =
     (case MLAgent_set_weights (agents c (brain ant)) d of
        Inl err \<Rightarrow> Inl err
      | Inr agent \<Rightarrow> set_all_weights rest d (c\<lparr>agents := (agents c)(brain ant := agent)\<rparr>))"

definition load_model ::
  "EvolutionManager \<Rightarrow> model_data option \<Rightarrow> (nat \<Rightarrow> nat \<Rightarrow> nat \<Rightarrow> real)
     \<Rightarrow> py_error + EvolutionManager" where
  "load_model em file draw =
     (case file of
        None \<Rightarrow> Inl OSError
      | Some md \<Rightarrow>
          (case MLAgent_init None draw of
             Inl err \<Rightarrow> Inl err
           | Inr fresh \<Rightarrow>
               (case md_weights md of
                  None \<Rightarrow> Inl KeyError
                | Some d \<Rightarrow>
                    (case MLAgent_set_weights fresh d of
                       Inl err \<Rightarrow> Inl err
                     | Inr agent \<Rightarrow>
                         let c = colony em;
                             c1 = c\<lparr>agents := (agents c)(next_agent c := agent),
                                     next_agent := next_agent c + 1\<rparr>;
                             em1 = em\<lparr>best_agent := Some (next_agent c),
                                      em_generation := (case md_generation md of
                                                          None \<Rightarrow> 0 | Some g \<Rightarrow> g),
                                      best_fitness := (case md_fitness md of
                                                         None \<Rightarrow> 0 | Some f \<Rightarrow> f),
                                      fitness_history := (case md_history md of
                                                            None \<Rightarrow> [] | Some h \<Rightarrow> h)\<rparr>
                         in case set_all_weights (ants c1) d c1 of
                              Inl err \<Rightarrow> Inl err
                            | Inr c2 \<Rightarrow> Inr (em1\<lparr>colony := c2\<rparr>)))))"

section \<open>Example states\<close>





section \<open>Verified properties\<close>

subsection \<open>Pheromone grid dimensions\<close>

lemma floor_plus_one_ceiling:
  "r \<noteq> 0 \<Longrightarrow> w div r + 1 = spec_grid_dim w r + (if r dvd w then 1 else 0)"
  unfolding spec_grid_dim_def
  by (simp add: ceiling_divide_eq_div zdiv_zminus1_eq_if dvd_eq_mod_eq_0)

lemma np_zeros2_shape: "0 \<le> m \<Longrightarrow> 0 \<le> n \<Longrightarrow> has_shape (np_zeros2 m n) m n"
  by (simp add: has_shape_def np_zeros2_def list_all_iff)

text \<open>
  Claim C7, as stated, fails: for the default world (1200 by 800, resolution 10) the
  constructor makes a grid 121 cells wide, while the ceiling of 1200 / 10 is 120.
\<close>

theorem grid_dimensions_ceiling_counterexample:
  "map_sum id grid_width (PheromoneSystem_init 1200 800 10) \<noteq> Inr (spec_grid_dim 1200 10)"
  by (simp add: PheromoneSystem_init_def spec_grid_dim_def Let_def)

text \<open>
  Claim C7, amended: for a positive resolution and a non-negative world size the
  constructor succeeds and the grid has \<open>width div resolution + 1\<close> by
  \<open>height div resolution + 1\<close> cells (floor division). That is the ceiling of size over
  resolution when the resolution does not divide the size, and one more than the ceiling
  when it does. Both channels are arrays of exactly that shape.
\<close>

theorem grid_dimensions:
  assumes "0 < r" and "0 \<le> w" and "0 \<le> h"
  shows "\<exists>p. PheromoneSystem_init w h r = Inr p
           \<and> grid_width p = w div r + 1 \<and> grid_height p = h div r + 1
           \<and> grid_width p = spec_grid_dim w r + (if r dvd w then 1 else 0)
           \<and> grid_height p = spec_grid_dim h r + (if r dvd h then 1 else 0)
           \<and> map fst (grids p) = [''food'', ''home'']
           \<and> list_all (\<lambda>(k, g). has_shape g (grid_width p) (grid_height p)) (grids p)"
proof -
  from assms have gw: "0 \<le> w div r + 1" and gh: "0 \<le> h div r + 1"
    by (simp_all add: pos_imp_zdiv_nonneg_iff)
  from assms(1) have r0: "r \<noteq> 0" by simp
  show ?thesis
    using gw gh r0 floor_plus_one_ceiling [OF r0, of w] floor_plus_one_ceiling [OF r0, of h]
    by (simp add: PheromoneSystem_init_def Let_def np_zeros2_shape)
qed

theorem grid_dimensions_witness:
  "\<exists>p. PheromoneSystem_init 1205 800 10 = Inr p
        \<and> grid_width p = 121 \<and> grid_height p = 81
        \<and> grid_width p = spec_grid_dim 1205 10
        \<and> grid_height p = spec_grid_dim 800 10 + 1"
  using grid_dimensions [of 10 1205 800] by auto

subsection \<open>Nest upgrades\<close>

text \<open>
  Claim C5, as stated, fails: a fresh nest that receives 500 units at once is upgraded
  once (to level 2, 400 units left) and still holds at least \<open>2 * 100\<close> units.
\<close>

theorem add_food_threshold_counterexample:
  "\<not> food_stored (Nest_add_food (Nest_init 0 0 50) 500)
       < structure_level (Nest_add_food (Nest_init 0 0 50) 500) * 100"
  by (simp add: Nest_add_food_def Nest_init_def check_upgrades_def)

text \<open>
  Claim C5, amended: one \<open>add_food\<close> call adds the amount and then applies the upgrade
  rule at most once, for every nest and every amount. When the new total reaches
  \<open>structure_level * 100\<close>, that amount is subtracted, the level grows by one, the radius
  by 5, and every chamber's size grows by one with its capacity multiplied by the new
  size; otherwise only the stored food changes. Nothing else happens, so the post-state
  satisfies \<open>food_stored < structure_level * 100\<close> exactly when the new total is below
  the old threshold, or reaches it and is below \<open>(2 * structure_level + 1) * 100\<close>.
\<close>

theorem add_food_at_most_one_upgrade:
  "Nest_add_food n a =
     (if structure_level n * 100 \<le> food_stored n + a
      then n\<lparr> food_stored := food_stored n + a - structure_level n * 100,
              structure_level := structure_level n + 1,
              radius := radius n + 5,
              chambers := map (\<lambda>(k, c). (k, \<lparr>chamber_size = chamber_size c + 1,
                                                capacity = (chamber_size c + 1) * capacity c\<rparr>))
                              (chambers n) \<rparr>
      else n\<lparr>food_stored := food_stored n + a\<rparr>)
   \<and> (food_stored (Nest_add_food n a) < structure_level (Nest_add_food n a) * 100
        \<longleftrightarrow> food_stored n + a < structure_level n * 100
            \<or> (structure_level n * 100 \<le> food_stored n + a
               \<and> food_stored n + a < (2 * structure_level n + 1) * 100))"
  by (auto simp: Nest_add_food_def check_upgrades_def upgrade_chamber_def Let_def algebra_simps
           split: prod.splits)

theorem add_food_at_most_one_upgrade_witness:
  "Nest_add_food (Nest_init 0 0 50) 30 = (Nest_init 0 0 50)\<lparr>food_stored := 30\<rparr>
   \<and> food_stored (Nest_add_food (Nest_init 0 0 50) 150) = 50
   \<and> structure_level (Nest_add_food (Nest_init 0 0 50) 150) = 2
   \<and> radius (Nest_add_food (Nest_init 0 0 50) 150) = 55
   \<and> chambers (Nest_add_food (Nest_init 0 0 50) 150)
        = [(''food'', \<lparr>chamber_size = 2, capacity = 200\<rparr>),
           (''nursery'', \<lparr>chamber_size = 2, capacity = 40\<rparr>),
           (''queen'', \<lparr>chamber_size = 2, capacity = 2\<rparr>)]
   \<and> food_stored (Nest_add_food (Nest_init 0 0 50) 700) = 600
   \<and> structure_level (Nest_add_food (Nest_init 0 0 50) 700) = 2"
  using add_food_at_most_one_upgrade [of "Nest_init 0 0 50" 30]
        add_food_at_most_one_upgrade [of "Nest_init 0 0 50" 150]
        add_food_at_most_one_upgrade [of "Nest_init 0 0 50" 700]
  by (simp add: Nest_init_def)

subsection \<open>Evaporation and diffusion\<close>


lemma row_fold_length: "length (fold (\<lambda>j r. r[j := f j]) js r) = length r"
  by (induction js arbitrary: r) auto

lemma row_fold_nth:
  "k < length r \<Longrightarrow> fold (\<lambda>j r. r[j := f j]) js r ! k = (if k \<in> set js then f k else r ! k)"
proof (induction js arbitrary: r)
  case Nil
  then show ?case by simp
next
  case (Cons a js)
  from Cons.prems have "k < length (r[a := f a])" by simp
  from Cons.IH [OF this] Cons.prems show ?case
    by (auto simp: nth_list_update)
qed

lemma inner_fold_row:
  "i < length D \<Longrightarrow>
   fold (\<lambda>j D. D[i := (D ! i)[j := f j]]) js D = D[i := fold (\<lambda>j r. r[j := f j]) js (D ! i)]"
proof (induction js arbitrary: D)
  case Nil
  then show ?case by simp
next
  case (Cons a js)
  then show ?case by simp
qed

lemma inner_fold_row_out:
  "\<not> i < length D \<Longrightarrow> fold (\<lambda>j D. D[i := (D ! i)[j := f j]]) js D = D"
  by (induction js arbitrary: D) (auto simp: list_update_beyond)

lemma outer_fold_length:
  "length (fold (\<lambda>i D. fold (\<lambda>j D. D[i := (D ! i)[j := f i j]]) js D) is D) = length D"
proof (induction "is" arbitrary: D)
  case Nil
  then show ?case by simp
next
  case (Cons a "is")
  show ?case
    by (cases "a < length D") (simp_all add: Cons.IH inner_fold_row inner_fold_row_out)
qed

lemma outer_fold_nth:
  "distinct is \<Longrightarrow> k < length D \<Longrightarrow>
   fold (\<lambda>i D. fold (\<lambda>j D. D[i := (D ! i)[j := f i j]]) js D) is D ! k
     = (if k \<in> set is then fold (\<lambda>j r. r[j := f k j]) js (D ! k) else D ! k)"
proof (induction "is" arbitrary: D)
  case Nil
  then show ?case by simp
next
  case (Cons a "is")
  show ?case
  proof (cases "a < length D")
    case True
    with Cons.prems Cons.IH [of "D[a := fold (\<lambda>j r. r[j := f a j]) js (D ! a)]"]
    show ?thesis
      by (auto simp: inner_fold_row nth_list_update)
  next
    case False
    with Cons.prems Cons.IH [of D]
    show ?thesis
      by (auto simp: inner_fold_row_out)
  qed
qed

lemma diffuse_length: "length (diffuse d gw gh g) = length g"
  unfolding diffuse_def by (rule outer_fold_length)

lemma diffuse_row_length: "i < length g \<Longrightarrow> length (diffuse d gw gh g ! i) = length (g ! i)"
  unfolding diffuse_def by (simp add: outer_fold_nth row_fold_length)

lemma diffuse_nth:
  "i < length g \<Longrightarrow> j < length (g ! i) \<Longrightarrow>
   diffuse d gw gh g ! i ! j
     = (if 1 \<le> i \<and> int i < gw - 1 \<and> 1 \<le> j \<and> int j < gh - 1
        then diffuse_cell d g i j else g ! i ! j)"
  unfolding diffuse_def by (auto simp: outer_fold_nth row_fold_nth)


lemma evaporate_length: "length (evaporate e g) = length g"
  by (simp add: evaporate_def)

lemma evaporate_nth: "i < length g \<Longrightarrow> evaporate e g ! i = map (\<lambda>v. v * e) (g ! i)"
  by (simp add: evaporate_def)

lemma evaporate_cell: "i < length g \<Longrightarrow> j < length (g ! i) \<Longrightarrow> evaporate e g ! i ! j = g ! i ! j * e"
  by (simp add: evaporate_def)

lemma convex_bound:
  fixes d :: real
  assumes "0 \<le> d" "d \<le> 1" "a \<le> M" "b \<le> M" "c \<le> M" "u \<le> M" "w \<le> M"
  shows "(1 - d) * a + d * np_mean [b, c, u, w] \<le> M"
proof -
  have m: "np_mean [b, c, u, w] \<le> M"
    using assms by (simp add: np_mean_def)
  have "(1 - d) * a \<le> (1 - d) * M"
    using assms by (intro mult_left_mono) simp_all
  moreover have "d * np_mean [b, c, u, w] \<le> d * M"
    using assms m by (intro mult_left_mono) simp_all
  ultimately have "(1 - d) * a + d * np_mean [b, c, u, w] \<le> (1 - d) * M + d * M"
    by (rule add_mono)
  then show ?thesis by (simp add: algebra_simps)
qed

lemma convex_nonneg:
  fixes d :: real
  assumes "0 \<le> d" "d \<le> 1" "0 \<le> a" "0 \<le> b" "0 \<le> c" "0 \<le> u" "0 \<le> w"
  shows "0 \<le> (1 - d) * a + d * np_mean [b, c, u, w]"
proof -
  have "0 \<le> np_mean [b, c, u, w]" using assms by (simp add: np_mean_def)
  then show ?thesis using assms by simp
qed

lemma shrink: fixes v :: real shows "0 \<le> v \<Longrightarrow> 0 \<le> e \<Longrightarrow> e \<le> 1 \<Longrightarrow> v * e \<le> v"
  by (simp add: mult_left_le)


lemma has_shape_covers: "has_shape g gw gh \<Longrightarrow> covers (evaporate e g) gw gh"
  by (auto simp: has_shape_def covers_def evaporate_def list_all_iff)

lemma update_grid_ok: "has_shape g gw gh \<Longrightarrow> update_grid e d gw gh g = Inr (updated_grid e d gw gh g)"
  by (simp add: update_grid_def updated_grid_def Let_def has_shape_covers)

lemma update_grids_ok:
  "list_all (\<lambda>(k, g). has_shape g gw gh) gs \<Longrightarrow>
   update_grids e d gw gh gs = Inr (map (\<lambda>(k, g). (k, updated_grid e d gw gh g)) gs)"
  by (induction gs) (auto simp: update_grid_ok)

lemma updated_grid_length: "length (updated_grid e d gw gh g) = length g"
  by (simp add: updated_grid_def diffuse_length evaporate_length)

lemma updated_grid_row_length: "i < length g \<Longrightarrow> length (updated_grid e d gw gh g ! i) = length (g ! i)"
  by (simp add: updated_grid_def diffuse_row_length evaporate_length evaporate_nth)

lemma updated_grid_has_shape: "has_shape g gw gh \<Longrightarrow> has_shape (updated_grid e d gw gh g) gw gh"
  by (auto simp: has_shape_def list_all_length updated_grid_length updated_grid_row_length)

lemma updated_grid_cell:
  assumes "i < length g" "j < length (g ! i)"
  shows "updated_grid e d gw gh g ! i ! j
     = (if d > 0 \<and> 1 \<le> i \<and> int i < gw - 1 \<and> 1 \<le> j \<and> int j < gh - 1
        then diffuse_cell d (evaporate e g) i j else g ! i ! j * e)"
  using assms
  by (simp add: updated_grid_def diffuse_nth evaporate_length evaporate_nth evaporate_cell)


lemma update_ok:
  assumes "well_shaped p"
  shows "PheromoneSystem_update p
     = Inr (p\<lparr>grids := map (\<lambda>(k, g). (k, updated_grid PHEROMONE_EVAPORATION_RATE PHEROMONE_DIFFUSION
                                          (grid_width p) (grid_height p) g)) (grids p)\<rparr>)"
  using assms by (simp add: PheromoneSystem_update_def well_shaped_def update_grids_ok)

lemma cell_SomeD:
  assumes "cell p t i j = Some v"
  obtains g where "map_of (grids p) t = Some g" "i < length g" "j < length (g ! i)" "v = g ! i ! j"
  using assms by (auto simp: cell_def split: option.splits if_splits)

lemma cell_after:
  assumes ws: "well_shaped p" and g: "map_of (grids p) t = Some g"
    and i: "i < length g" and j: "j < length (g ! i)"
  shows "cell_after_update p t i j
     = Some (updated_grid PHEROMONE_EVAPORATION_RATE PHEROMONE_DIFFUSION (grid_width p) (grid_height p) g ! i ! j)"
  using g i j
  by (simp add: cell_after_update_def update_ok [OF ws] cell_def map_of_map updated_grid_length updated_grid_row_length)

lemma interior_neighbourhood:
  assumes g: "map_of (grids p) t = Some g" and sh: "has_shape g (grid_width p) (grid_height p)"
    and int: "interior p i j"
  shows "neighbourhood p t i j
     = [g ! i ! j, g ! (i - 1) ! j, g ! (i + 1) ! j, g ! i ! (j - 1), g ! i ! (j + 1)]"
proof -
  from sh int have i: "i + 1 < length g" and rows: "\<And>k. k < length g \<Longrightarrow> j + 1 < length (g ! k)"
    by (auto simp: has_shape_def interior_def list_all_length)
  have c: "cell p t a b = Some (g ! a ! b)" if "a < length g" "b \<le> j + 1" for a b
    using that rows [of a] g by (simp add: cell_def)
  from i have "i < length g" "i - 1 < length g" "i + 1 < length g" by simp_all
  then show ?thesis
    by (simp add: neighbourhood_def List.map_filter_simps c)
qed


lemma evap_rate: "0 \<le> PHEROMONE_EVAPORATION_RATE" "PHEROMONE_EVAPORATION_RATE \<le> 1"
  by (simp_all add: PHEROMONE_EVAPORATION_RATE_def)

lemma diff_rate: "0 < PHEROMONE_DIFFUSION" "PHEROMONE_DIFFUSION \<le> 1"
  by (simp_all add: PHEROMONE_DIFFUSION_def)

text \<open>
  Claim C3, amended: in a field whose arrays have the shape \<open>(grid_width, grid_height)\<close>
  and whose cells are non-negative, one \<open>update\<close> succeeds and leaves every cell
  non-negative. A border cell (one the diffusion loops do not visit) becomes its old value
  times the evaporation rate, so it does not grow. An interior cell becomes at most the
  largest of the old values of the cell and of its four neighbours; it can exceed its
  own old value.
\<close>

theorem update_cell_bound:
  assumes ws: "well_shaped p" and nn: "nonneg_cells p" and c: "cell p t i j = Some v"
  shows "\<exists>v'. cell_after_update p t i j = Some v' \<and> 0 \<le> v'
            \<and> (if interior p i j then v' \<le> Max (set (neighbourhood p t i j))
               else v' = v * PHEROMONE_EVAPORATION_RATE \<and> v' \<le> v)"
proof -
  let ?e = PHEROMONE_EVAPORATION_RATE and ?d = PHEROMONE_DIFFUSION
  from c obtain g where g: "map_of (grids p) t = Some g" and i: "i < length g"
    and j: "j < length (g ! i)" and v: "v = g ! i ! j"
    by (rule cell_SomeD)
  from g have mem: "(t, g) \<in> set (grids p)" by (rule map_of_SomeD)
  with ws have sh: "has_shape g (grid_width p) (grid_height p)"
    by (auto simp: well_shaped_def list_all_iff)
  from mem nn have "list_all (list_all (\<lambda>v. 0 \<le> v)) g"
    by (auto simp: nonneg_cells_def list_all_iff)
  then have pos: "\<And>a b. a < length g \<Longrightarrow> b < length (g ! a) \<Longrightarrow> 0 \<le> g ! a ! b"
    by (simp add: list_all_length)
  let ?v' = "updated_grid ?e ?d (grid_width p) (grid_height p) g ! i ! j"
  have after: "cell_after_update p t i j = Some ?v'"
    by (rule cell_after [OF ws g i j])
  show ?thesis
  proof (cases "interior p i j")
    case False
    then have "?v' = v * ?e"
      using i j by (auto simp: updated_grid_cell interior_def v)
    moreover have "0 \<le> v" using pos [OF i j] v by simp
    ultimately show ?thesis
      using after False evap_rate by (simp add: shrink)
  next
    case True
    from sh True have i1: "i + 1 < length g"
      and rows: "\<And>k. k < length g \<Longrightarrow> j + 1 < length (g ! k)"
      by (auto simp: has_shape_def interior_def list_all_length)
    from i1 have im: "i - 1 < length g" and ii: "i < length g" by simp_all
    from rows [OF ii] rows [OF im] rows [OF i1]
    have jj: "j < length (g ! i)" "j - 1 < length (g ! i)" "j + 1 < length (g ! i)"
      "j < length (g ! (i - 1))" "j < length (g ! (i + 1))" by simp_all
    let ?N = "neighbourhood p t i j"
    have N: "?N = [g ! i ! j, g ! (i - 1) ! j, g ! (i + 1) ! j, g ! i ! (j - 1), g ! i ! (j + 1)]"
      by (rule interior_neighbourhood [OF g sh True])
    let ?M = "Max (set ?N)"
    have le: "x \<le> ?M" if "x \<in> set ?N" for x
      using that by (intro Max_ge) simp_all
    have ev: "x * ?e \<le> ?M" if "x \<in> set ?N" "0 \<le> x" for x
      using le [OF that(1)] shrink [OF that(2) evap_rate] by linarith
    have val: "?v' = diffuse_cell ?d (evaporate ?e g) i j"
      using True i j diff_rate by (simp add: updated_grid_cell interior_def)
    have cells: "evaporate ?e g ! i ! j = g ! i ! j * ?e"
      "evaporate ?e g ! (i - 1) ! j = g ! (i - 1) ! j * ?e"
      "evaporate ?e g ! (i + 1) ! j = g ! (i + 1) ! j * ?e"
      "evaporate ?e g ! i ! (j - 1) = g ! i ! (j - 1) * ?e"
      "evaporate ?e g ! i ! (j + 1) = g ! i ! (j + 1) * ?e"
      using ii im i1 jj by (simp_all add: evaporate_cell)
    have p0: "0 \<le> g ! i ! j" "0 \<le> g ! (i - 1) ! j" "0 \<le> g ! (i + 1) ! j"
      "0 \<le> g ! i ! (j - 1)" "0 \<le> g ! i ! (j + 1)"
      using ii im i1 jj by (simp_all add: pos)
    have up: "?v' \<le> ?M"
      unfolding val diffuse_cell_def cells
      using diff_rate p0
      by (intro convex_bound ev) (simp_all add: N)
    have lo: "0 \<le> ?v'"
      unfolding val diffuse_cell_def cells
      using diff_rate p0 evap_rate
      by (intro convex_nonneg) simp_all
    show ?thesis using after True up lo by simp
  qed
qed


lemma single_deposit_field_reached:
  "PheromoneSystem_init 20 20 10 = Inr p0 \<Longrightarrow>
   add_pheromone p0 (Vector2D 5 15) ''food'' 10 = Inr single_deposit_field"
  by (auto simp: PheromoneSystem_init_def add_pheromone_def single_deposit_field_def Let_def
      np_zeros2_def grid_coord_def np_index_def set_grid_def numeral_3_eq_3)

lemma single_deposit_ws: "well_shaped single_deposit_field"
  by (simp add: well_shaped_def single_deposit_field_def has_shape_def)

lemma single_deposit_nn: "nonneg_cells single_deposit_field"
  by (simp add: nonneg_cells_def single_deposit_field_def)

lemma single_deposit_update: "cell_after_update single_deposit_field ''food'' 1 1 = Some (199 / 1600)"
proof -
  have g: "map_of (grids single_deposit_field) ''food'' = Some [[0, 10, 0], [0, 0, 0], [0, 0, 0]]"
    by (simp add: single_deposit_field_def)
  have "cell_after_update single_deposit_field ''food'' 1 1
      = Some (updated_grid PHEROMONE_EVAPORATION_RATE PHEROMONE_DIFFUSION 3 3 [[0, 10, 0], [0, 0, 0], [0, 0, 0]] ! 1 ! 1)"
    using cell_after [OF single_deposit_ws g, of 1 1] by (simp add: single_deposit_field_def)
  also have "updated_grid PHEROMONE_EVAPORATION_RATE PHEROMONE_DIFFUSION 3 3 [[0, 10, 0], [0, 0, 0], [0, 0, 0]] ! 1 ! 1
      = 199 / 1600"
    by (simp add: updated_grid_cell diffuse_cell_def evaporate_def np_mean_def
        PHEROMONE_EVAPORATION_RATE_def PHEROMONE_DIFFUSION_def)
  finally show ?thesis .
qed

text \<open>
  Claim C3, as stated, fails: after a single deposit of 10 in the border cell (0, 1), the
  interior cell (1, 1) holds 0 before \<open>update\<close> and 199 / 1600 after it, with no deposit in
  between: diffusion moves pheromone into it.
\<close>

theorem update_cell_increase_counterexample:
  "well_shaped single_deposit_field \<and> nonneg_cells single_deposit_field
   \<and> cell single_deposit_field ''food'' 1 1 = Some 0
   \<and> cell_after_update single_deposit_field ''food'' 1 1 = Some (199 / 1600)
   \<and> \<not> (199 / 1600 \<le> (0::real))"
proof -
  have "cell single_deposit_field ''food'' 1 1 = Some 0"
    by (simp add: cell_def single_deposit_field_def)
  with single_deposit_update show ?thesis
    by (simp add: single_deposit_ws single_deposit_nn)
qed

theorem update_cell_bound_witness:
  "well_shaped single_deposit_field \<and> nonneg_cells single_deposit_field
   \<and> cell single_deposit_field ''food'' 1 1 = Some 0
   \<and> interior single_deposit_field 1 1
   \<and> neighbourhood single_deposit_field ''food'' 1 1 = [0, 10, 0, 0, 0]
   \<and> (\<exists>v'. cell_after_update single_deposit_field ''food'' 1 1 = Some v' \<and> 0 \<le> v' \<and> v' \<le> 10)"
proof -
  have c: "cell single_deposit_field ''food'' 1 1 = Some 0"
    by (simp add: cell_def single_deposit_field_def)
  have i: "interior single_deposit_field 1 1"
    by (simp add: interior_def single_deposit_field_def)
  have n: "neighbourhood single_deposit_field ''food'' 1 1 = [0, 10, 0, 0, 0]"
    by (simp add: neighbourhood_def List.map_filter_simps cell_def single_deposit_field_def)
  show ?thesis
    using update_cell_bound [OF single_deposit_ws single_deposit_nn c] c i n single_deposit_ws single_deposit_nn by simp
qed

subsection \<open>Crossover\<close>




lemma shape_2d:
  assumes "shape a = [m, c]"
  shows "\<not> is_1d a" and "nrows a = m" and "ncols a = c"
  using assms by (cases a; simp)+










lemma list_all_upt: "list_all P [0 ..< k] \<longleftrightarrow> (\<forall>i < k. P i)"
  by (simp only: list_all_iff set_upt atLeastLessThan_iff Ball_def le0 simp_thms)

lemma has_topology_iff:
  "has_topology n \<longleftrightarrow>
     length (weights n) = length (hidden_sizes n) + 1
     \<and> length (biases n) = length (hidden_sizes n) + 1
     \<and> (\<forall>i < length (hidden_sizes n) + 1.
           layer_sizes n ! i + layer_sizes n ! (i + 1) \<noteq> 0
           \<and> shape (weights n ! i) = [layer_sizes n ! i, layer_sizes n ! (i + 1)]
           \<and> wf_array (weights n ! i)
           \<and> length (biases n ! i) = layer_sizes n ! (i + 1))"
  unfolding has_topology_def list_all_upt ..

lemma has_topology_layer:
  assumes "has_topology n" and "i < length (hidden_sizes n) + 1"
  shows "layer_sizes n ! i + layer_sizes n ! (i + 1) \<noteq> 0"
    and "shape (weights n ! i) = [layer_sizes n ! i, layer_sizes n ! (i + 1)]"
    and "wf_array (weights n ! i)"
    and "length (biases n ! i) = layer_sizes n ! (i + 1)"
proof -
  note t = assms(1) [unfolded has_topology_iff]
  note all = t [THEN conjunct2, THEN conjunct2]
  note l = all [rule_format, OF assms(2)]
  from l show "layer_sizes n ! i + layer_sizes n ! (i + 1) \<noteq> 0" by (rule conjunct1)
  from l [THEN conjunct2, THEN conjunct1]
  show "shape (weights n ! i) = [layer_sizes n ! i, layer_sizes n ! (i + 1)]" .
  from l [THEN conjunct2, THEN conjunct2, THEN conjunct1] show "wf_array (weights n ! i)" .
  from l [THEN conjunct2, THEN conjunct2, THEN conjunct2]
  show "length (biases n ! i) = layer_sizes n ! (i + 1)" .
qed

lemma has_topology_lengths:
  assumes "has_topology n"
  shows "length (weights n) = length (hidden_sizes n) + 1"
    and "length (biases n) = length (hidden_sizes n) + 1"
proof -
  note t = assms [unfolded has_topology_iff]
  from t [THEN conjunct1] show "length (weights n) = length (hidden_sizes n) + 1" .
  from t [THEN conjunct2, THEN conjunct1] show "length (biases n) = length (hidden_sizes n) + 1" .
qed





lemma parents_have_topology: "has_topology parent_a" "has_topology parent_b"
  by (simp_all add: has_topology_def parent_a_def parent_b_def layer_sizes_def)




subsection \<open>Saving and restoring weights\<close>

lemma np_array_tolist: "wf_array a \<Longrightarrow> np_array (tolist a) = Inr (reread a)"
  by (induction a rule: reread.induct) (auto simp: list_all_iff)

lemma np_arrays_tolist:
  "list_all wf_array ws \<Longrightarrow> np_arrays (map tolist ws) = Inr (map reread ws)"
  by (induction ws) (simp_all add: np_array_tolist)

lemma map2_replicate_zero:
  fixes b :: "real list"
  shows "map2 (\<lambda>u v. u + v) (replicate (length b) 0) b = b"
  by (induction b) simp_all

lemma map_add_zero:
  fixes b :: "real list"
  shows "map ((+) 0) b = b"
  by (induction b) simp_all

lemma layer_reread:
  assumes "nrows a = 0 \<longrightarrow> length b = ncols a"
  shows "(case np_dot x (reread a) of Inl err \<Rightarrow> Inl err | Inr d \<Rightarrow> np_add d b)
       = (case np_dot x a of Inl err \<Rightarrow> Inl err | Inr d \<Rightarrow> np_add d b)"
  using assms
proof (induction a rule: reread.induct)
  case (2 c)
  then have "length b = c" by simp
  then show ?case
    by (auto simp: map_add_zero map2_replicate_zero map_replicate_const)
qed simp_all


lemma dot_reread_error:
  "(\<exists>e. np_dot x (reread a) = Inl e) \<longleftrightarrow> (\<exists>e. np_dot x a = Inl e)"
  by (induction a rule: reread.induct) auto

lemma dot_reread_Inl: "np_dot x (reread a) = Inl e \<longleftrightarrow> np_dot x a = Inl e"
  by (induction a rule: reread.induct) auto



lemma step_reread:
  assumes "nrows a = 0 \<and> \<not> P \<longrightarrow> length b = ncols a"
  shows "(case np_dot x (reread a) of
            Inl err \<Rightarrow> Inl err
          | Inr d \<Rightarrow> if P then Inl IndexError
                     else case np_add d b of Inl err \<Rightarrow> Inl err | Inr z \<Rightarrow> k z)
       = (case np_dot x a of
            Inl err \<Rightarrow> Inl err
          | Inr d \<Rightarrow> if P then Inl IndexError
                     else case np_add d b of Inl err \<Rightarrow> Inl err | Inr z \<Rightarrow> k z)"
  using assms
proof (induction a rule: reread.induct)
  case (2 c)
  show ?case
  proof (cases P)
    case True
    then show ?thesis by simp
  next
    case False
    with 2 have "c = length b" by simp
    with False show ?thesis
      by (simp add: map_add_zero map2_replicate_zero map_replicate_const)
  qed
qed simp_all

lemma forward_loop_reread:
  assumes "\<forall>i \<in> set is. i < length ws \<and> (nrows (ws ! i) = 0 \<and> i < length bs
               \<longrightarrow> length (bs ! i) = ncols (ws ! i))"
  shows "forward_loop (map reread ws) bs is x acts = forward_loop ws bs is x acts"
  using assms
proof (induction "is" arbitrary: x acts)
  case Nil
  show ?case by simp
next
  case (Cons i "is")
  from Cons.prems have i: "i < length ws"
    and c: "nrows (ws ! i) = 0 \<and> \<not> length bs \<le> i \<longrightarrow> length (bs ! i) = ncols (ws ! i)"
    by simp_all
  from Cons.prems have rest: "\<forall>i \<in> set is. i < length ws \<and> (nrows (ws ! i) = 0 \<and> i < length bs
               \<longrightarrow> length (bs ! i) = ncols (ws ! i))" by simp
  note IH = Cons.IH [OF rest]
  show ?case
    unfolding forward_loop.simps Let_def IH length_map nth_map [OF i]
    by (rule step_reread [OF c])
qed


lemma consistent_iff:
  "consistent n \<longleftrightarrow>
     (\<forall>i < length (weights n).
        wf_array (weights n ! i)
        \<and> (nrows (weights n ! i) = 0 \<and> i < length (biases n)
             \<longrightarrow> length (biases n ! i) = ncols (weights n ! i)))"
  unfolding consistent_def list_all_upt ..

lemma elem_reread: "r < nrows a \<Longrightarrow> elem (reread a) r k = elem a r k"
  by (induction a rule: reread.induct) simp_all

lemma set_get_weights:
  assumes "consistent n"
  shows "set_weights m (get_weights n)
       = Inr (m\<lparr>weights := map reread (weights n), biases := biases n\<rparr>)"
proof -
  from assms have "\<forall>i < length (weights n). wf_array (weights n ! i)"
    unfolding consistent_iff by blast
  then have "list_all wf_array (weights n)" by (simp add: list_all_length)
  then show ?thesis by (simp add: set_weights_def get_weights_def np_arrays_tolist)
qed

lemma forward_output_reread:
  assumes "consistent n"
  shows "forward_output (m\<lparr>weights := map reread (weights n), biases := biases n\<rparr>) x
       = forward_output n x"
proof -
  from assms have "\<forall>i \<in> set [0 ..< length (weights n)]. i < length (weights n)
      \<and> (nrows (weights n ! i) = 0 \<and> i < length (biases n)
             \<longrightarrow> length (biases n ! i) = ncols (weights n ! i))"
    unfolding consistent_iff by simp
  note e = forward_loop_reread [OF this]
  show ?thesis
    by (simp add: forward_output_def forward_def e split: sum.splits)
qed

text \<open>
  Claim C4: for every consistent network \<open>n\<close>, every input \<open>x\<close> and every network \<open>m\<close>,
  \<open>set_weights\<close> applied to \<open>m\<close> with the result of \<open>get_weights\<close> on \<open>n\<close> succeeds and gives
  a network with the same weight and bias values, whose forward output on \<open>x\<close> is that
  of \<open>n\<close> (the same vector, or the same exception); the same holds for \<open>load\<close> of what
  \<open>save\<close> wrote, into a freshly constructed network of any topology.
\<close>

theorem weights_round_trip:
  assumes "consistent n"
  shows "(\<exists>m'. set_weights m (get_weights n) = Inr m'
            \<and> length (weights m') = length (weights n)
            \<and> (\<forall>i < length (weights n). \<forall>r < nrows (weights n ! i). \<forall>k < ncols (weights n ! i).
                   elem (weights m' ! i) r k = elem (weights n ! i) r k)
            \<and> biases m' = biases n
            \<and> forward_output m' x = forward_output n x)
       \<and> (\<forall>network. NeuralNetwork_init isz hsz osz draw = Inr network \<longrightarrow>
            (\<exists>m'. load (save n) isz hsz osz draw = Inr m'
                  \<and> forward_output m' x = forward_output n x))"
proof (intro conjI allI impI)
  let ?m = "\<lambda>m. m\<lparr>weights := map reread (weights n), biases := biases n\<rparr>"
  show "\<exists>m'. set_weights m (get_weights n) = Inr m'
            \<and> length (weights m') = length (weights n)
            \<and> (\<forall>i < length (weights n). \<forall>r < nrows (weights n ! i). \<forall>k < ncols (weights n ! i).
                   elem (weights m' ! i) r k = elem (weights n ! i) r k)
            \<and> biases m' = biases n
            \<and> forward_output m' x = forward_output n x"
  proof (intro exI [of _ "?m m"] conjI allI impI)
    show "set_weights m (get_weights n) = Inr (?m m)" by (rule set_get_weights [OF assms])
    show "forward_output (?m m) x = forward_output n x" by (rule forward_output_reread [OF assms])
  qed (simp_all add: elem_reread)
next
  fix network
  assume "NeuralNetwork_init isz hsz osz draw = Inr network"
  then have "load (save n) isz hsz osz draw
      = Inr (network\<lparr>weights := map reread (weights n), biases := biases n\<rparr>)"
    by (simp add: load_def save_def set_get_weights [OF assms])
  with forward_output_reread [OF assms, of network x]
  show "\<exists>m'. load (save n) isz hsz osz draw = Inr m' \<and> forward_output m' x = forward_output n x"
    by blast
qed

lemma has_topology_consistent: "has_topology n \<Longrightarrow> consistent n"
  unfolding consistent_iff
proof (intro allI impI conjI)
  fix i
  assume t: "has_topology n" and "i < length (weights n)"
  with has_topology_lengths(1) [OF t] have i: "i < length (hidden_sizes n) + 1" by simp
  show "wf_array (weights n ! i)" by (rule has_topology_layer(3) [OF t i])
  from shape_2d(3) [OF has_topology_layer(2) [OF t i]] has_topology_layer(4) [OF t i]
  show "length (biases n ! i) = ncols (weights n ! i)" by simp
qed

lemma parent_a_forward: "forward_output parent_a [1, 1] = Inr [6]"
  by (simp add: forward_output_def forward_def parent_a_def upt_rec Let_def)

lemma parent_a_biases: "biases parent_a = [[3]]"
  by (simp add: parent_a_def)

theorem weights_round_trip_witness:
  "consistent parent_a
   \<and> forward_output parent_a [1, 1] = Inr [6]
   \<and> (\<exists>m'. set_weights parent_b (get_weights parent_a) = Inr m'
          \<and> biases m' = [[3]]
          \<and> forward_output m' [1, 1] = Inr [6])
   \<and> (\<exists>m'. load (save parent_a) 2 [] 1 (\<lambda>i r c. 0) = Inr m'
          \<and> forward_output m' [1, 1] = Inr [6])"
proof -
  have c: "consistent parent_a" by (rule has_topology_consistent [OF parents_have_topology(1)])
  have i: "NeuralNetwork_init 2 [] 1 (\<lambda>i r c. 0)
       = Inr \<lparr> input_size = 2, hidden_sizes = [], output_size = 1,
               weights = [Arr2 1 (random_matrix (\<lambda>r c. 0) 2 1)], biases = [[0]],
               activations = [] \<rparr>"
    by (simp add: NeuralNetwork_init_def)
  note t = weights_round_trip [OF c, of parent_b "[1, 1]" 2 "[]" 1 "\<lambda>i r c. 0"]
  from t [THEN conjunct1] obtain m' where
    "set_weights parent_b (get_weights parent_a) = Inr m'" "biases m' = biases parent_a"
    "forward_output m' [1, 1] = forward_output parent_a [1, 1]" by blast
  then have 1: "\<exists>m'. set_weights parent_b (get_weights parent_a) = Inr m'
          \<and> biases m' = [[3]] \<and> forward_output m' [1, 1] = Inr [6]"
    using parent_a_biases by (auto simp: parent_a_forward)
  from t [THEN conjunct2, rule_format, OF i] have
    2: "\<exists>m'. load (save parent_a) 2 [] 1 (\<lambda>i r c. 0) = Inr m' \<and> forward_output m' [1, 1] = Inr [6]"
    by (simp add: parent_a_forward)
  from c 1 2 parent_a_forward show ?thesis by blast
qed

subsection \<open>Tournament selection\<close>

lemma argmax_scan_max:
  assumes "length pre = i" and "best < i" and "bv = (pre @ xs) ! best"
    and "\<forall>k < i. (pre @ xs) ! k \<le> bv"
  shows "argmax_scan xs i best bv < length (pre @ xs)
       \<and> (\<forall>k < length (pre @ xs). (pre @ xs) ! k \<le> (pre @ xs) ! argmax_scan xs i best bv)"
  using assms
proof (induction xs arbitrary: i best bv pre)
  case Nil
  then show ?case by simp
next
  case (Cons x xs)
  have split: "pre @ x # xs = (pre @ [x]) @ xs" by simp
  have xi: "(pre @ x # xs) ! i = x" using Cons.prems(1) by (simp add: nth_append)
  show ?case
  proof (cases "bv < x")
    case True
    have "\<forall>k < i + 1. ((pre @ [x]) @ xs) ! k \<le> x"
    proof (intro allI impI)
      fix k assume "k < i + 1"
      then consider "k < i" | "k = i" by linarith
      then show "((pre @ [x]) @ xs) ! k \<le> x"
      proof cases
        case 1
        with Cons.prems(4) have "(pre @ x # xs) ! k \<le> bv" by simp
        with True show ?thesis unfolding split [symmetric] by simp
      next
        case 2
        with xi show ?thesis unfolding split [symmetric] by simp
      qed
    qed
    moreover have "x = ((pre @ [x]) @ xs) ! i" using xi unfolding split [symmetric] by simp
    moreover have "length (pre @ [x]) = i + 1" using Cons.prems(1) by simp
    ultimately have "argmax_scan xs (i + 1) i x < length ((pre @ [x]) @ xs)
       \<and> (\<forall>k < length ((pre @ [x]) @ xs).
             ((pre @ [x]) @ xs) ! k \<le> ((pre @ [x]) @ xs) ! argmax_scan xs (i + 1) i x)"
      by (intro Cons.IH) simp_all
    with True show ?thesis unfolding split [symmetric] by simp
  next
    case False
    have "\<forall>k < i + 1. ((pre @ [x]) @ xs) ! k \<le> bv"
    proof (intro allI impI)
      fix k assume "k < i + 1"
      then consider "k < i" | "k = i" by linarith
      then show "((pre @ [x]) @ xs) ! k \<le> bv"
      proof cases
        case 1
        with Cons.prems(4) show ?thesis unfolding split [symmetric] by simp
      next
        case 2
        with xi False show ?thesis unfolding split [symmetric] by simp
      qed
    qed
    moreover have "bv = ((pre @ [x]) @ xs) ! best"
      using Cons.prems(3) unfolding split [symmetric] .
    moreover have "length (pre @ [x]) = i + 1" "best < i + 1" using Cons.prems(1,2) by simp_all
    ultimately have "argmax_scan xs (i + 1) best bv < length ((pre @ [x]) @ xs)
       \<and> (\<forall>k < length ((pre @ [x]) @ xs).
             ((pre @ [x]) @ xs) ! k \<le> ((pre @ [x]) @ xs) ! argmax_scan xs (i + 1) best bv)"
      by (intro Cons.IH) simp_all
    with False show ?thesis unfolding split [symmetric] by simp
  qed
qed

lemma np_argmax_max:
  assumes "xs \<noteq> []"
  shows "\<exists>k. np_argmax xs = Inr k \<and> k < length xs \<and> (\<forall>j < length xs. xs ! j \<le> xs ! k)"
proof -
  from assms obtain x ys where xs: "xs = x # ys" by (cases xs) auto
  from argmax_scan_max [of "[x]" 1 0 x ys] show ?thesis unfolding xs by simp
qed


lemma valid_sample_size:
  assumes "valid_sample n k s"
  shows "k \<le> n"
proof -
  from assms have d: "distinct s" and l: "length s = k" and b: "set s \<subseteq> {..<n}"
    by (auto simp: valid_sample_def list_all_iff)
  from d have "card (set s) = length s" by (rule distinct_card)
  moreover from b have "card (set s) \<le> card {..<n}" by (intro card_mono) simp_all
  ultimately show ?thesis using l by simp
qed

lemma select_one_winner:
  assumes v: "valid_sample (length population) (tournament_size (length population)) s"
    and f: "length population \<le> length fitnesses"
  shows "\<exists>j. select_one population fitnesses s = Inr (population ! j)
           \<and> j \<in> set s \<and> j < length population
           \<and> (\<forall>i \<in> set s. fitnesses ! i \<le> fitnesses ! j)"
proof -
  let ?tf = "map (\<lambda>i. fitnesses ! i) s"
  from v have len: "length s = tournament_size (length population)"
    and bound: "\<forall>i \<in> set s. i < length population"
    by (auto simp: valid_sample_def list_all_iff)
  from len have "2 \<le> length s" by (simp add: tournament_size_def)
  then have ne: "?tf \<noteq> []" by auto
  from np_argmax_max [OF ne] obtain k where
    k: "np_argmax ?tf = Inr k" "k < length s" and mx: "\<forall>j < length ?tf. ?tf ! j \<le> ?tf ! k"
    by auto
  let ?j = "s ! k"
  from k(2) have js: "?j \<in> set s" by simp
  with bound have jp: "?j < length population" by simp
  have big: "\<not> length population < tournament_size (length population)"
    using valid_sample_size [OF v] by simp
  have inb: "\<not> list_ex (\<lambda>i. length fitnesses \<le> i) s"
    using bound f by (auto simp: list_ex_iff)
  have res: "select_one population fitnesses s = Inr (population ! ?j)"
    using big inb k(1) jp by (simp add: select_one_def)
  have "fitnesses ! i \<le> fitnesses ! ?j" if "i \<in> set s" for i
  proof -
    from that obtain m where m: "m < length s" "s ! m = i" by (auto simp: in_set_conv_nth)
    with mx [rule_format, of m] k(2) show ?thesis by simp
  qed
  with res js jp show ?thesis by blast
qed

text \<open>
  Claim C9: for every population, every fitness list that covers it and every two
  draws of \<open>tournament_size\<close> distinct indices, \<open>select_parents\<close> returns two individuals
  of the population, each drawn in its sample and with a fitness that is maximal within
  that sample. Consequently an index whose fitness is strictly below that of another
  index of the same sample is never the winner of that sample.
\<close>

theorem tournament_winner_maximal:
  assumes "valid_sample (length population) (tournament_size (length population)) draw1"
    and "valid_sample (length population) (tournament_size (length population)) draw2"
    and "length population \<le> length fitnesses"
  shows "\<exists>j1 j2. select_parents population fitnesses draw1 draw2
                    = Inr (population ! j1, population ! j2)
           \<and> j1 \<in> set draw1 \<and> j1 < length population
           \<and> (\<forall>i \<in> set draw1. fitnesses ! i \<le> fitnesses ! j1)
           \<and> (\<forall>l \<in> set draw1. (\<exists>i \<in> set draw1. fitnesses ! l < fitnesses ! i) \<longrightarrow> j1 \<noteq> l)
           \<and> j2 \<in> set draw2 \<and> j2 < length population
           \<and> (\<forall>i \<in> set draw2. fitnesses ! i \<le> fitnesses ! j2)
           \<and> (\<forall>l \<in> set draw2. (\<exists>i \<in> set draw2. fitnesses ! l < fitnesses ! i) \<longrightarrow> j2 \<noteq> l)"
proof -
  from select_one_winner [OF assms(1,3)] obtain j1 where
    1: "select_one population fitnesses draw1 = Inr (population ! j1)"
      "j1 \<in> set draw1" "j1 < length population"
      "\<forall>i \<in> set draw1. fitnesses ! i \<le> fitnesses ! j1" by blast
  from select_one_winner [OF assms(2,3)] obtain j2 where
    2: "select_one population fitnesses draw2 = Inr (population ! j2)"
      "j2 \<in> set draw2" "j2 < length population"
      "\<forall>i \<in> set draw2. fitnesses ! i \<le> fitnesses ! j2" by blast
  have n1: "\<forall>l \<in> set draw1. (\<exists>i \<in> set draw1. fitnesses ! l < fitnesses ! i) \<longrightarrow> j1 \<noteq> l"
    using 1(4) by (auto simp: not_less [symmetric])
  have n2: "\<forall>l \<in> set draw2. (\<exists>i \<in> set draw2. fitnesses ! l < fitnesses ! i) \<longrightarrow> j2 \<noteq> l"
    using 2(4) by (auto simp: not_less [symmetric])
  have "select_parents population fitnesses draw1 draw2 = Inr (population ! j1, population ! j2)"
    by (simp add: select_parents_def 1(1) 2(1))
  with 1 2 n1 n2 show ?thesis by blast
qed

theorem tournament_winner_maximal_witness:
  "valid_sample 4 (tournament_size 4) [0, 3] \<and> valid_sample 4 (tournament_size 4) [3, 1]
   \<and> select_parents [''a'', ''b'', ''c'', ''d''] [1, 5, 9, 2 :: int] [0, 3] [3, 1] = Inr (''d'', ''b'')"
proof -
  have ts: "tournament_size 4 = 2" by (simp add: tournament_size_def)
  have v4: "valid_sample 4 (tournament_size 4) [0, 3]" "valid_sample 4 (tournament_size 4) [3, 1]"
    unfolding ts by (simp_all add: valid_sample_def)
  have len4: "length [''a'', ''b'', ''c'', ''d''] = 4" by simp
  have v: "valid_sample (length [''a'', ''b'', ''c'', ''d'']) (tournament_size (length [''a'', ''b'', ''c'', ''d''])) [0, 3]"
    "valid_sample (length [''a'', ''b'', ''c'', ''d'']) (tournament_size (length [''a'', ''b'', ''c'', ''d''])) [3, 1]"
    unfolding len4 by (rule v4)+
  have l: "length [''a'', ''b'', ''c'', ''d''] \<le> length [1, 5, 9, 2 :: int]" by simp
  from tournament_winner_maximal [OF v l] obtain j1 j2 where
    r: "select_parents [''a'', ''b'', ''c'', ''d''] [1, 5, 9, 2 :: int] [0, 3] [3, 1]
          = Inr ([''a'', ''b'', ''c'', ''d''] ! j1, [''a'', ''b'', ''c'', ''d''] ! j2)"
    and j1: "j1 \<in> set [0, 3]" "\<forall>i \<in> set [0, 3]. [1, 5, 9, 2 :: int] ! i \<le> [1, 5, 9, 2] ! j1"
    and j2: "j2 \<in> set [3, 1]" "\<forall>i \<in> set [3, 1]. [1, 5, 9, 2 :: int] ! i \<le> [1, 5, 9, 2] ! j2"
    by blast
  from j1 have "j1 = 3" by auto
  moreover from j2 have "j2 = 1" by auto
  ultimately have "select_parents [''a'', ''b'', ''c'', ''d''] [1, 5, 9, 2 :: int] [0, 3] [3, 1] = Inr (''d'', ''b'')"
    using r by simp
  with v4 show ?thesis by blast
qed

subsection \<open>Food pickup and delivery\<close>


















end
